theory Spec2Isabelle
  imports Complex_Main "HOL-Library.Word" "HOL-Library.Log_Nat"
begin

section \<open>JavaScript values used by the token-bonding SDK\<close>

text \<open>
  The SDK (\<^verbatim>\<open>packages/spl-token-bonding/src/index.ts\<close>) computes with JavaScript
  numbers and with \<^verbatim>\<open>BN\<close> big integers. A JavaScript number is \<^verbatim>\<open>NaN\<close>, an
  infinity, or finite. The payload of a finite number depends on what the code does with it:
  \<^item> where the code calculates (\<^verbatim>\<open>*\<close>, \<^verbatim>\<open>/\<close>, \<^verbatim>\<open>-\<close>, \<^verbatim>\<open>Math.floor\<close>), the payload is
    a rational. The instruction builders are modelled with the exact results of the
    operators, without the rounding of IEEE doubles, the overflow of finite results and the
    sign of zero; the rounding is modelled where a statement depends on it, for the needed
    amount of a buy (\<open>to_double\<close> and \<open>neededAmount_double\<close> below);
  \<^item> where the code prints (\<^verbatim>\<open>num.toString()\<close>), the payload is the decimal form from
    which ECMAScript defines the rendering, see \<open>decimal\<close> below.
\<close>

datatype 'f number = NaN | Infinity bool | Finite 'f

text \<open>\<open>Infinity True\<close> is \<^verbatim>\<open>-Infinity\<close>.\<close>

fun isNaN :: "'f number \<Rightarrow> bool" where
  "isNaN NaN = True"
| "isNaN _ = False"

fun isFinite :: "'f number \<Rightarrow> bool" where
  "isFinite (Finite _) = True"
| "isFinite _ = False"

text \<open>
  Errors are values. \<open>Error msg\<close> is a JavaScript \<^verbatim>\<open>Error\<close> with its message, the only
  kind that \<^verbatim>\<open>index.ts\<close> and \<^verbatim>\<open>bn.js\<close> raise; the other constructors are the typed
  error kinds that the specification names.
\<close>

datatype error =
    Error string
  | Overflow
  | InvalidCurveDefinition
  | InvalidRoyalty
  | CurveUndefined
  | NoConvergence
  | NoPathFound

text \<open>An argument of type \<^verbatim>\<open>number | BN\<close>; a \<^verbatim>\<open>BN\<close> is an unbounded integer.\<close>

datatype 'f num_or_BN = Num "'f number" | BN int

subsection \<open>Decimal digits\<close>

definition digit_char :: "nat \<Rightarrow> char" where
  "digit_char d = (if d < 10 then ''0123456789'' ! d else CHR ''?'')"

definition is_digit :: "char \<Rightarrow> bool" where
  "is_digit c = (c \<in> set ''0123456789'')"

fun index_of :: "'a \<Rightarrow> 'a list \<Rightarrow> int" where
  "index_of c [] = 0"
| "index_of c (x # xs) = (if c = x then 0 else 1 + index_of c xs)"

definition digit_val :: "char \<Rightarrow> int" where
  "digit_val c = index_of c ''0123456789''"

fun string_of_nat :: "nat \<Rightarrow> string" where
  "string_of_nat n =
     (if n < 10 then [digit_char n] else string_of_nat (n div 10) @ [digit_char (n mod 10)])"

declare string_of_nat.simps [simp del]

text \<open>The value of a string of decimal digits; the empty string has the value 0.\<close>

definition int_of_string :: "string \<Rightarrow> int" where
  "int_of_string s = foldl (\<lambda>a c. 10 * a + digit_val c) 0 s"

subsection \<open>\<^verbatim>\<open>Number.prototype.toString\<close>\<close>

text \<open>
  ECMAScript renders a finite number \<open>x\<close> from the integers \<open>n\<close>, \<open>k\<close> and \<open>s\<close> with
  \<open>k \<ge> 1\<close>, \<open>10 ^ (k - 1) \<le> s < 10 ^ k\<close>, \<open>s * 10 ^ (n - k) = \<bar>x\<bar>\<close> and \<open>k\<close> as small as
  possible. \<open>Decimal neg ds n\<close> is the number with sign \<open>neg\<close>, the \<open>k\<close> digits \<open>ds\<close> of
  \<open>s\<close> (most significant first) and that \<open>n\<close>; zero is \<open>Decimal False [0] 1\<close>.
  So \<^verbatim>\<open>1.5\<close> is \<open>Decimal False [1, 5] 1\<close> and \<^verbatim>\<open>1e-7\<close> is \<open>Decimal False [1] (-6)\<close>.
\<close>

datatype decimal = Decimal bool "nat list" int

fun wf_decimal :: "decimal \<Rightarrow> bool" where
  "wf_decimal (Decimal neg ds n) =
     (ds \<noteq> [] \<and> list_all (\<lambda>d. d < 10) ds \<and>
      (if hd ds = 0 then ds = [0] \<and> n = 1 \<and> \<not> neg else last ds \<noteq> 0))"

definition digits_value :: "nat list \<Rightarrow> nat" where
  "digits_value ds = foldl (\<lambda>a d. 10 * a + d) 0 ds"

fun decimal_value :: "decimal \<Rightarrow> rat" where
  "decimal_value (Decimal neg ds n) =
     (if neg then - 1 else 1) * rat_of_nat (digits_value ds)
       * (if int (length ds) \<le> n then 10 ^ nat (n - int (length ds))
          else 1 / 10 ^ nat (int (length ds) - n))"

fun toString :: "decimal number \<Rightarrow> string" where
  "toString NaN = ''NaN''"
| "toString (Infinity neg) = (if neg then ''-Infinity'' else ''Infinity'')"
| "toString (Finite (Decimal neg ds n)) =
     (if list_all (\<lambda>d. d = 0) ds then ''0''
      else
        (if neg then ''-'' else '''') @
        (let k = int (length ds); s = map digit_char ds in
         if k \<le> n \<and> n \<le> 21 then s @ replicate (nat (n - k)) CHR ''0''
         else if 0 < n \<and> n \<le> 21 then take (nat n) s @ ''.'' @ drop (nat n) s
         else if - 6 < n \<and> n \<le> 0 then ''0.'' @ replicate (nat (- n)) CHR ''0'' @ s
         else
           (let e = n - 1;
                es = (if e < 0 then ''-'' else ''+'') @ string_of_nat (nat \<bar>e\<bar>)
            in if k = 1 then s @ ''e'' @ es
               else take 1 s @ ''.'' @ drop 1 s @ ''e'' @ es)))"

subsection \<open>\<^verbatim>\<open>String.prototype.split\<close>, \<^verbatim>\<open>slice\<close>, \<^verbatim>\<open>padEnd\<close>\<close>

text \<open>\<^verbatim>\<open>str.split(".")\<close>: the pieces between the dots, at least one piece.\<close>

fun split_dot :: "string \<Rightarrow> string list" where
  "split_dot [] = [[]]"
| "split_dot (c # cs) =
     (if c = CHR ''.'' then [] # split_dot cs
      else (case split_dot cs of p # ps \<Rightarrow> (c # p) # ps | [] \<Rightarrow> [[c]]))"

text \<open>\<^verbatim>\<open>const [a, b] = arr\<close>: \<open>b\<close> is \<^verbatim>\<open>undefined\<close> when the array has one element.\<close>

definition first_elem :: "string list \<Rightarrow> string option" where
  "first_elem ps = (case ps of [] \<Rightarrow> None | p # _ \<Rightarrow> Some p)"

definition second_elem :: "string list \<Rightarrow> string option" where
  "second_elem ps = (case ps of _ # q # _ \<Rightarrow> Some q | _ \<Rightarrow> None)"

text \<open>\<^verbatim>\<open>x || ""\<close> on a string: \<^verbatim>\<open>undefined\<close> and the empty string give \<^verbatim>\<open>""\<close>.\<close>

definition or_empty :: "string option \<Rightarrow> string" where
  "or_empty x = (case x of None \<Rightarrow> [] | Some s \<Rightarrow> s)"

definition slice0 :: "nat \<Rightarrow> string \<Rightarrow> string" where
  "slice0 n s = take n s"

definition padEnd :: "nat \<Rightarrow> char \<Rightarrow> string \<Rightarrow> string" where
  "padEnd n c s = s @ replicate (n - length s) c"

subsection \<open>\<^verbatim>\<open>Number(string)\<close>\<close>

text \<open>
  The conversion of a string to a number, for the decimal grammar: an optional sign, then
  \<^verbatim>\<open>Infinity\<close> or digits with an optional fraction and an optional exponent; the empty
  string is 0 and anything else is \<^verbatim>\<open>NaN\<close>. A value that rounds beyond the largest double
  (at or above \<open>2 ^ 1024 - 2 ^ 970\<close>) is an infinity. White space and the \<^verbatim>\<open>0x\<close>,
  \<^verbatim>\<open>0o\<close>, \<^verbatim>\<open>0b\<close> literals, which no rendering of a number contains, are left out.
\<close>

definition parse_sign :: "string \<Rightarrow> bool \<times> string" where
  "parse_sign s =
     (case s of [] \<Rightarrow> (False, [])
      | c # r \<Rightarrow> if c = CHR ''-'' then (True, r) else if c = CHR ''+'' then (False, r) else (False, s))"

definition parse_exponent :: "string \<Rightarrow> int option" where
  "parse_exponent s =
     (case s of [] \<Rightarrow> Some 0
      | c # r \<Rightarrow>
          if c = CHR ''e'' \<or> c = CHR ''E'' then
            (let (neg, ds) = parse_sign r in
             if ds \<noteq> [] \<and> list_all is_digit ds
             then Some ((if neg then - 1 else 1) * int_of_string ds)
             else None)
          else None)"

definition scale10 :: "rat \<Rightarrow> int \<Rightarrow> rat" where
  "scale10 r e = (if 0 \<le> e then r * 10 ^ nat e else r / 10 ^ nat (- e))"

definition to_double_range :: "bool \<Rightarrow> rat \<Rightarrow> rat number" where
  "to_double_range neg r =
     (if 2 ^ 1024 - 2 ^ 970 \<le> r then Infinity neg else Finite (if neg then - r else r))"

definition Number :: "string \<Rightarrow> rat number" where
  "Number str =
     (if str = [] then Finite 0
      else
        (let (neg, body) = parse_sign str in
         if body = ''Infinity'' then Infinity neg
         else
           (let ip = takeWhile is_digit body;
                r1 = dropWhile is_digit body;
                (fp, r2) = (case r1 of [] \<Rightarrow> ([], [])
                            | c # r \<Rightarrow> if c = CHR ''.''
                                then (takeWhile is_digit r, dropWhile is_digit r)
                                else ([], r1))
            in if ip = [] \<and> fp = [] then NaN
               else (case parse_exponent r2 of
                       None \<Rightarrow> NaN
                     | Some e \<Rightarrow>
                         to_double_range neg
                           (scale10 (rat_of_int (int_of_string (ip @ fp)))
                              (e - int (length fp)))))))"

subsection \<open>\<^verbatim>\<open>new BN(...)\<close>\<close>

text \<open>
  \<^verbatim>\<open>new BN(string)\<close> of \<^verbatim>\<open>bn.js\<close> 5: white space is removed, a leading \<^verbatim>\<open>-\<close> is the
  sign, and every other character must be a digit of the base (10), or the constructor
  fails its assertion with the message \<^verbatim>\<open>Invalid character\<close>.
\<close>

definition is_space :: "char \<Rightarrow> bool" where
  "is_space c = (c \<in> set [CHR 0x09, CHR 0x0A, CHR 0x0B, CHR 0x0C, CHR 0x0D, CHR 0x20])"

definition BN_of_string :: "string \<Rightarrow> error + int" where
  "BN_of_string str =
     (let s = filter (\<lambda>c. \<not> is_space c) str;
          (neg, ds) = (case s of [] \<Rightarrow> (False, [])
                       | c # r \<Rightarrow> if c = CHR ''-'' then (True, r) else (False, s))
      in if list_all is_digit ds
         then Inr ((if neg then - 1 else 1) * int_of_string ds)
         else Inl (Error ''Invalid character''))"

text \<open>
  \<^verbatim>\<open>new BN(number)\<close> of \<^verbatim>\<open>bn.js\<close> 5. The constructor initialises from
  \<^verbatim>\<open>number || 0\<close>, so \<^verbatim>\<open>NaN\<close>, which is false, gives the \<^verbatim>\<open>BN\<close> 0 like the number 0
  does. Of every other number the magnitude must be below \<open>2 ^ 53\<close>: the constructor
  asserts it, with the message \<^verbatim>\<open>Assertion failed\<close>, so the infinities fail. The bit
  operations that split the number into words drop its fraction.
\<close>

definition trunc :: "rat \<Rightarrow> int" where
  "trunc r = (if r < 0 then - \<lfloor>- r\<rfloor> else \<lfloor>r\<rfloor>)"

fun BN_of_number :: "rat number \<Rightarrow> error + int" where
  "BN_of_number (Finite r) =
     (if \<bar>r\<bar> < 2 ^ 53 then Inr (trunc r) else Inl (Error ''Assertion failed''))"
| "BN_of_number NaN = Inr 0"
| "BN_of_number (Infinity s) = Inl (Error ''Assertion failed'')"

section \<open>\<^verbatim>\<open>toU128\<close>: a number as 12-decimal fixed point\<close>

text \<open>
  \<^verbatim>\<open>
  export function toU128(num: number | BN): BN {
    if (BN.isBN(num)) { return num; }
    const [beforeDec, afteDec] = num.toString().split(".");
    if (isNaN(Number(beforeDec)) || !isFinite(Number(beforeDec))) { return new BN(0); }
    return new BN(`${beforeDec || ""}${(afteDec || "").slice(0, 12).padEnd(12, "0")}`);
  }
  \<close>
\<close>

definition Number_of :: "string option \<Rightarrow> rat number" where
  "Number_of x = (case x of None \<Rightarrow> NaN | Some s \<Rightarrow> Number s)"

definition toU128 :: "decimal num_or_BN \<Rightarrow> error + int" where
  "toU128 num =
     (case num of
        BN b \<Rightarrow> Inr b
      | Num x \<Rightarrow>
          (let parts = split_dot (toString x);
               beforeDec = first_elem parts;
               afteDec = second_elem parts
           in if isNaN (Number_of beforeDec) \<or> \<not> isFinite (Number_of beforeDec)
              then BN_of_number (Finite 0)
              else BN_of_string
                     (or_empty beforeDec @ padEnd 12 CHR ''0'' (slice0 12 (or_empty afteDec)))))"

text \<open>
  What the fixed-point encoding of a non-negative decimal number is: its integer part
  followed by its first 12 fractional digits, that is the floor of the number times
  \<open>10 ^ 12\<close>.
\<close>

definition fixed12 :: "decimal \<Rightarrow> int" where
  "fixed12 d = \<lfloor>decimal_value d * 10 ^ 12\<rfloor>"

text \<open>
  The numbers that \<^verbatim>\<open>toString\<close> renders without an exponent and without a sign: zero
  and the magnitudes from \<open>10 ^ (- 6)\<close> up to, not including, \<open>10 ^ 21\<close>; and the
  encoding of a number, 0 for one that is not finite.
\<close>

fun plain_rendering :: "decimal number \<Rightarrow> bool" where
  "plain_rendering (Finite (Decimal neg ds n)) =
     (\<not> neg \<and> wf_decimal (Decimal neg ds n) \<and> - 6 < n \<and> n \<le> 21)"
| "plain_rendering _ = False"

fun fixed12_of :: "decimal number \<Rightarrow> int" where
  "fixed12_of (Finite d) = fixed12 d"
| "fixed12_of _ = 0"

section \<open>Sequencing of operations that may throw\<close>

definition bind_err :: "error + 'a \<Rightarrow> ('a \<Rightarrow> error + 'b) \<Rightarrow> error + 'b" where
  "bind_err m f = (case m of Inl e \<Rightarrow> Inl e | Inr x \<Rightarrow> f x)"

text \<open>\<^verbatim>\<open>xs.map(f)\<close> for an \<open>f\<close> that may throw: left to right, the first failure ends it.\<close>

fun map_err :: "('a \<Rightarrow> error + 'b) \<Rightarrow> 'a list \<Rightarrow> error + 'b list" where
  "map_err f [] = Inr []"
| "map_err f (x # xs) =
     bind_err (f x) (\<lambda>y. bind_err (map_err f xs) (\<lambda>ys. Inr (y # ys)))"

section \<open>Curve configurations\<close>

text \<open>
  \<^verbatim>\<open>ExponentialCurveConfig\<close> (lines 81 to 135). The constructor takes an object whose
  properties may be absent (\<open>None\<close>) and default to \<^verbatim>\<open>c = 1, b = 0, pow = 1, frac = 1\<close>;
  it stores \<^verbatim>\<open>toU128(c)\<close>, \<^verbatim>\<open>toU128(b)\<close>, \<^verbatim>\<open>pow\<close> and \<^verbatim>\<open>frac\<close>.
\<close>

record ExponentialCurveConfig =
  cfg_c :: int
  cfg_b :: int
  cfg_pow :: "rat number"
  cfg_frac :: "rat number"

definition default_to :: "'a \<Rightarrow> 'a option \<Rightarrow> 'a" where
  "default_to d x = (case x of None \<Rightarrow> d | Some v \<Rightarrow> v)"

definition new_ExponentialCurveConfig ::
  "decimal num_or_BN option \<Rightarrow> decimal num_or_BN option \<Rightarrow> rat number option \<Rightarrow>
   rat number option \<Rightarrow> error + ExponentialCurveConfig" where
  "new_ExponentialCurveConfig c b pow' frac' =
     bind_err (toU128 (default_to (Num (Finite (Decimal False [1] 1))) c)) (\<lambda>c'.
     bind_err (toU128 (default_to (Num (Finite (Decimal False [0] 1))) b)) (\<lambda>b'.
     Inr \<lparr>cfg_c = c', cfg_b = b',
          cfg_pow = default_to (Finite 1) pow', cfg_frac = default_to (Finite 1) frac'\<rparr>))"

text \<open>
  The raw curve definition of the contract: \<^verbatim>\<open>{exponentialCurveV0: {c, b, pow, frac}}\<close>
  with the fields in that order, inside
  \<^verbatim>\<open>{definition: {timeV0: {curves: [{offset, curve}, ...]}}}\<close>.
\<close>

datatype PrimitiveCurveV0 = ExponentialCurveV0 int int "rat number" "rat number"

datatype TimeCurveEntryV0 = TimeCurveEntryV0 int PrimitiveCurveV0

datatype CurveV0 = TimeV0 "TimeCurveEntryV0 list"

definition toRawPrimitiveConfig :: "ExponentialCurveConfig \<Rightarrow> PrimitiveCurveV0" where
  "toRawPrimitiveConfig cfg =
     ExponentialCurveV0 (cfg_c cfg) (cfg_b cfg) (cfg_pow cfg) (cfg_frac cfg)"

text \<open>The offset is \<^verbatim>\<open>new BN(0)\<close>.\<close>

definition toRawConfig :: "ExponentialCurveConfig \<Rightarrow> CurveV0" where
  "toRawConfig cfg = TimeV0 [TimeCurveEntryV0 0 (toRawPrimitiveConfig cfg)]"

text \<open>
  \<^verbatim>\<open>TimeCurveConfig\<close> (lines 140 to 169): a list of \<^verbatim>\<open>{curve, offset}\<close> that starts empty;
  the only primitive curve of the SDK is the exponential one.
  \<^verbatim>\<open>
  addCurve(timeOffset: number, curve: IPrimitiveCurve): TimeCurveConfig {
    if (this.curves.length == 0 && timeOffset != 0) {
      throw new Error("First time offset must be 0");
    }
    this.curves.push({ curve, offset: new BN(timeOffset) });
    return this;
  }
  \<close>
\<close>

record TimeCurveConfig =
  curves :: "(ExponentialCurveConfig \<times> int) list"

definition new_TimeCurveConfig :: TimeCurveConfig where
  "new_TimeCurveConfig = \<lparr>curves = []\<rparr>"

definition addCurve ::
  "rat number \<Rightarrow> ExponentialCurveConfig \<Rightarrow> TimeCurveConfig \<Rightarrow> error + TimeCurveConfig" where
  "addCurve timeOffset curve this =
     (if length (curves this) = 0 \<and> timeOffset \<noteq> Finite 0
      then Inl (Error ''First time offset must be 0'')
      else bind_err (BN_of_number timeOffset) (\<lambda>offset.
           Inr (this\<lparr>curves := curves this @ [(curve, offset)]\<rparr>)))"

text \<open>A chain of calls \<^verbatim>\<open>cfg.addCurve(t1, c1).addCurve(t2, c2)...\<close>.\<close>

fun addCurves ::
  "(rat number \<times> ExponentialCurveConfig) list \<Rightarrow> TimeCurveConfig \<Rightarrow> error + TimeCurveConfig" where
  "addCurves [] this = Inr this"
| "addCurves ((timeOffset, curve) # rest) this =
     bind_err (addCurve timeOffset curve this) (addCurves rest)"

definition TimeCurveConfig_toRawConfig :: "TimeCurveConfig \<Rightarrow> CurveV0" where
  "TimeCurveConfig_toRawConfig this =
     TimeV0 (map (\<lambda>(curve, offset). TimeCurveEntryV0 offset (toRawPrimitiveConfig curve))
               (curves this))"

text \<open>Offsets that start at zero and strictly increase, as the specification asks.\<close>

fun strictly_increasing :: "int list \<Rightarrow> bool" where
  "strictly_increasing (x # y # ys) = (x < y \<and> strictly_increasing (y # ys))"
| "strictly_increasing _ = True"

definition increasing_from_zero :: "int list \<Rightarrow> bool" where
  "increasing_from_zero offs = (offs \<noteq> [] \<and> hd offs = 0 \<and> strictly_increasing offs)"

section \<open>Arithmetic on numbers\<close>

text \<open>
  The operators on \<^verbatim>\<open>NaN\<close>, the infinities and the finite numbers. A finite result is
  exact; a division by zero gives an infinity (or \<^verbatim>\<open>NaN\<close> for \<^verbatim>\<open>0 / 0\<close>), as in
  JavaScript, and never raises.
\<close>

fun js_neg :: "rat number \<Rightarrow> rat number" where
  "js_neg NaN = NaN"
| "js_neg (Infinity s) = Infinity (\<not> s)"
| "js_neg (Finite a) = Finite (- a)"

fun js_add :: "rat number \<Rightarrow> rat number \<Rightarrow> rat number" where
  "js_add (Finite a) (Finite b) = Finite (a + b)"
| "js_add (Infinity s) (Infinity t) = (if s = t then Infinity s else NaN)"
| "js_add (Infinity s) (Finite b) = Infinity s"
| "js_add (Finite a) (Infinity t) = Infinity t"
| "js_add _ _ = NaN"

definition js_sub :: "rat number \<Rightarrow> rat number \<Rightarrow> rat number" where
  "js_sub x y = js_add x (js_neg y)"

fun js_mul :: "rat number \<Rightarrow> rat number \<Rightarrow> rat number" where
  "js_mul (Finite a) (Finite b) = Finite (a * b)"
| "js_mul (Infinity s) (Infinity t) = Infinity (s \<noteq> t)"
| "js_mul (Infinity s) (Finite b) = (if b = 0 then NaN else Infinity (s \<noteq> (b < 0)))"
| "js_mul (Finite a) (Infinity t) = (if a = 0 then NaN else Infinity ((a < 0) \<noteq> t))"
| "js_mul _ _ = NaN"

fun js_div :: "rat number \<Rightarrow> rat number \<Rightarrow> rat number" where
  "js_div (Finite a) (Finite b) =
     (if b = 0 then (if a = 0 then NaN else Infinity (a < 0)) else Finite (a / b))"
| "js_div (Finite a) (Infinity t) = Finite 0"
| "js_div (Infinity s) (Finite b) = Infinity (s \<noteq> (b < 0))"
| "js_div _ _ = NaN"

fun Math_floor :: "rat number \<Rightarrow> rat number" where
  "Math_floor (Finite a) = Finite (of_int \<lfloor>a\<rfloor>)"
| "Math_floor x = x"

fun Math_ceil :: "rat number \<Rightarrow> rat number" where
  "Math_ceil (Finite a) = Finite (of_int \<lceil>a\<rceil>)"
| "Math_ceil x = x"

text \<open>\<^verbatim>\<open>Math.pow(10, decimals)\<close> for the decimals of a mint, a \<^verbatim>\<open>u8\<close>.\<close>

definition Math_pow10 :: "nat \<Rightarrow> rat number" where
  "Math_pow10 d = Finite (10 ^ d)"

section \<open>Royalty percentages\<close>

type_synonym u32 = "32 word"

text \<open>
  Modelled from the spec: \<^verbatim>\<open>asDecimal\<close> is imported from \<^verbatim>\<open>./curves\<close>, which is not
  among the sources. The specification gives the encoding of a royalty percentage: an
  integer numerator over a fixed denominator, the largest unsigned 32-bit integer.
\<close>

definition asDecimal :: "u32 \<Rightarrow> rat number" where
  "asDecimal percent = Finite (of_nat (unat percent) / 4294967295)"

text \<open>
  \<^verbatim>\<open>Number.prototype.toFixed(f)\<close> of a finite number \<open>x\<close>: \<open>n\<close> is the integer for
  which \<open>n / 10 ^ f\<close> is nearest to \<open>x\<close>, the larger one on a tie; its digits are padded
  with zeros to \<open>f + 1\<close> digits and the point is set before the last \<open>f\<close>
  (\<open>fixed_digits\<close>). From
  \<open>10 ^ 21\<close> on, ECMAScript returns the rendering of \<^verbatim>\<open>toString\<close> instead, which exact
  rationals do not have: the model gives \<open>None\<close> there.
\<close>

definition fixed_digits :: "nat \<Rightarrow> nat \<Rightarrow> string" where
  "fixed_digits f n =
     (let m = (if n = 0 then ''0'' else string_of_nat n)
      in if f \<noteq> 0
         then (let m = (if length m \<le> f
                        then replicate (f + 1 - length m) CHR ''0'' @ m else m);
                   k = length m
               in take (k - f) m @ ''.'' @ drop (k - f) m)
         else m)"

definition toFixed :: "nat \<Rightarrow> rat \<Rightarrow> string option" where
  "toFixed f x =
     (if 10 ^ 21 \<le> \<bar>x\<bar> then None
      else Some ((if x < 0 then ''-'' else [])
                 @ fixed_digits f (nat \<lfloor>\<bar>x\<bar> * 10 ^ f + 1 / 2\<rfloor>)))"

text \<open>
  The swap form (\<^verbatim>\<open>SwapForm.tsx\<close>) shows a royalty numerator as a percentage. The result
  is a string, or the number 0. The argument is a \<^verbatim>\<open>u32\<close> field of the token bonding
  account; \<open>None\<close> is a missing (\<^verbatim>\<open>undefined\<close>) one.
  \<^verbatim>\<open>
  const humanReadablePercentage = (u32: number) => {
    if (u32 && u32 !== 0) { return ((u32 / 4294967295) * 100).toFixed(2); }
    return 0;
  };
  \<close>
\<close>

datatype string_or_number = IsString string | IsNumber "rat number"

definition humanReadablePercentage :: "u32 option \<Rightarrow> string_or_number option" where
  "humanReadablePercentage u32 =
     (case u32 of
        None \<Rightarrow> Some (IsNumber (Finite 0))
      | Some w \<Rightarrow>
          if w \<noteq> 0
          then map_option IsString (toFixed 2 ((of_nat (unat w) / 4294967295) * 100))
          else Some (IsNumber (Finite 0)))"

text \<open>Two fractional digits: the hundredths \<open>q\<close> as \<^verbatim>\<open>I.dd\<close>.\<close>

definition two_decimals :: "nat \<Rightarrow> string" where
  "two_decimals q =
     string_of_nat (q div 100) @ ''.'' @ [digit_char (q div 10 mod 10), digit_char (q mod 10)]"

section \<open>Buying and selling\<close>

text \<open>
  What the instruction builders read from the chain before they calculate: the token
  bonding account, the two mints and the pricing curve. The pricing curve
  (\<^verbatim>\<open>IPricingCurve\<close>) and \<^verbatim>\<open>amountAsNum\<close> come from \<^verbatim>\<open>./curves\<close>, which is not among
  the sources: they are parameters, and each may throw.
\<close>

record MintInfo =
  decimals :: nat

record TokenBondingV0 =
  buyBaseRoyaltyPercentage :: u32
  buyTargetRoyaltyPercentage :: u32
  sellBaseRoyaltyPercentage :: u32
  sellTargetRoyaltyPercentage :: u32
  sellFrozen :: bool

record IPricingCurve =
  buyTargetAmount :: "rat number \<Rightarrow> u32 \<Rightarrow> u32 \<Rightarrow> error + rat number"
  buyWithBaseAmount :: "rat number \<Rightarrow> u32 \<Rightarrow> u32 \<Rightarrow> error + rat number"
  sellTargetAmount :: "rat number \<Rightarrow> u32 \<Rightarrow> u32 \<Rightarrow> error + rat number"
  buyTargetAmountRootEstimates :: "rat number \<Rightarrow> u32 \<Rightarrow> error + decimal number list"
  buyWithBaseRootEstimates :: "rat number \<Rightarrow> u32 \<Rightarrow> error + decimal number list"

record Chain =
  tokenBondingAcct :: TokenBondingV0
  targetMint :: MintInfo
  baseMint :: MintInfo
  pricing :: IPricingCurve
  amountAsNum :: "int \<Rightarrow> MintInfo \<Rightarrow> rat number"
  baseIsWrappedSol :: bool
  wrappedSolMint :: MintInfo
  sourceExists :: bool

text \<open>Lines 326 to 340.\<close>

definition toNumber ::
  "(int \<Rightarrow> MintInfo \<Rightarrow> rat number) \<Rightarrow> rat num_or_BN \<Rightarrow> MintInfo \<Rightarrow> rat number" where
  "toNumber asNum numberOrBn mint =
     (case numberOrBn of BN b \<Rightarrow> asNum b mint | Num n \<Rightarrow> n)"

definition toBN :: "rat num_or_BN \<Rightarrow> MintInfo \<Rightarrow> error + int" where
  "toBN numberOrBn mint =
     (case numberOrBn of
        BN b \<Rightarrow> Inr b
      | Num n \<Rightarrow> BN_of_number (Math_ceil (js_mul n (Math_pow10 (decimals mint)))))"

text \<open>
  \<^verbatim>\<open>if (amount)\<close> for an optional \<^verbatim>\<open>BN | number\<close>: \<^verbatim>\<open>undefined\<close>, \<^verbatim>\<open>0\<close> and \<^verbatim>\<open>NaN\<close>
  are false, every other number and every \<^verbatim>\<open>BN\<close> object is true.
\<close>

fun truthy :: "rat num_or_BN option \<Rightarrow> bool" where
  "truthy None = False"
| "truthy (Some (BN b)) = True"
| "truthy (Some (Num NaN)) = False"
| "truthy (Some (Num (Infinity s))) = True"
| "truthy (Some (Num (Finite a))) = (a \<noteq> 0)"

text \<open>
  \<^verbatim>\<open>createTemporaryWSolAccount\<close> (lines 1105 to 1202) converts the amount twice with
  \<^verbatim>\<open>toBN\<close>, for the wrapping and the unwrapping instruction.
\<close>

definition createTemporaryWSolAccount :: "MintInfo \<Rightarrow> rat number \<Rightarrow> error + int \<times> int" where
  "createTemporaryWSolAccount mint amount =
     bind_err (toBN (Num amount) mint) (\<lambda>a1.
     bind_err (toBN (Num amount) mint) (\<lambda>a2. Inr (a1 + 1, a2)))"

record IBuyArgs =
  sourceGiven :: bool
  desiredTargetAmount :: "rat num_or_BN option"
  baseAmount :: "rat num_or_BN option"
  slippage :: "rat number"

record BuyTargetAmountV0Args =
  targetAmount :: int
  maximumPrice :: int

record BuyWithBaseV0Args =
  bwb_baseAmount :: int
  minimumTargetAmount :: int

record BuyV0Args =
  arg_buyTargetAmount :: "BuyTargetAmountV0Args option"
  arg_buyWithBase :: "BuyWithBaseV0Args option"
  rootEstimates :: "int list option"

text \<open>
  Line 1285: the target amount to mint so that \<^verbatim>\<open>desiredTargetAmountNum\<close> is left after
  the target royalty, here with the exact results of the three operators (with their
  roundings it is \<open>neededAmount_double\<close> below).
  \<^verbatim>\<open>
  const neededAmount =
    desiredTargetAmountNum *
    (1 / (1 - asDecimal(tokenBondingAcct.buyTargetRoyaltyPercentage)));
  \<close>
\<close>

definition neededAmount :: "rat number \<Rightarrow> u32 \<Rightarrow> rat number" where
  "neededAmount desiredTargetAmountNum pct =
     js_mul desiredTargetAmountNum (js_div (Finite 1) (js_sub (Finite 1) (asDecimal pct)))"

text \<open>
  \<^verbatim>\<open>buyInstructions\<close> (lines 1210 to 1393), from line 1279 on. The two \<^verbatim>\<open>if\<close> blocks
  set \<^verbatim>\<open>buyTargetAmount\<close>, \<^verbatim>\<open>buyWithBase\<close>, \<^verbatim>\<open>rootEstimates\<close> and \<^verbatim>\<open>maxPrice\<close>;
  each block hands on what it has set.
\<close>

definition buy_desired_block ::
  "Chain \<Rightarrow> IBuyArgs \<Rightarrow>
   error + (BuyTargetAmountV0Args option \<times> decimal number list option \<times> rat number)" where
  "buy_desired_block env a =
     (case desiredTargetAmount a of
        None \<Rightarrow> Inr (None, None, Finite 0)
      | Some amt \<Rightarrow>
          if \<not> truthy (Some amt) then Inr (None, None, Finite 0)
          else
            (let acct = tokenBondingAcct env;
                 desiredTargetAmountNum = toNumber (amountAsNum env) amt (targetMint env);
                 needed = neededAmount desiredTargetAmountNum (buyTargetRoyaltyPercentage acct)
             in bind_err (buyTargetAmount (pricing env) desiredTargetAmountNum
                            (buyBaseRoyaltyPercentage acct) (buyTargetRoyaltyPercentage acct))
                  (\<lambda>curveAmount.
                (let maxPrice = js_mul curveAmount (js_add (Finite 1) (slippage a))
                 in bind_err (buyTargetAmountRootEstimates (pricing env) desiredTargetAmountNum
                                (buyTargetRoyaltyPercentage acct))
                      (\<lambda>ests.
                    bind_err (BN_of_number
                                (Math_floor (js_mul needed (Math_pow10 (decimals (targetMint env))))))
                      (\<lambda>ta.
                    bind_err (toBN (Num maxPrice) (baseMint env))
                      (\<lambda>mp.
                    Inr (Some \<lparr>targetAmount = ta, maximumPrice = mp\<rparr>, Some ests, maxPrice))))))))"

definition buy_base_block ::
  "Chain \<Rightarrow> IBuyArgs \<Rightarrow> decimal number list option \<Rightarrow> rat number \<Rightarrow>
   error + (BuyWithBaseV0Args option \<times> decimal number list option \<times> rat number)" where
  "buy_base_block env a ests0 maxPrice0 =
     (case baseAmount a of
        None \<Rightarrow> Inr (None, ests0, maxPrice0)
      | Some amt \<Rightarrow>
          if \<not> truthy (Some amt) then Inr (None, ests0, maxPrice0)
          else
            (let acct = tokenBondingAcct env;
                 baseAmountNum = toNumber (amountAsNum env) amt (baseMint env)
             in bind_err (buyWithBaseAmount (pricing env) baseAmountNum
                            (buyBaseRoyaltyPercentage acct) (buyTargetRoyaltyPercentage acct))
                  (\<lambda>quote.
                (let min' = js_mul quote (js_sub (Finite 1) (slippage a))
                 in bind_err (buyWithBaseRootEstimates (pricing env) baseAmountNum
                                (buyBaseRoyaltyPercentage acct))
                      (\<lambda>ests.
                    bind_err (toBN amt (baseMint env))
                      (\<lambda>ba.
                    bind_err (BN_of_number
                                (Math_ceil (js_mul min' (Math_pow10 (decimals (targetMint env))))))
                      (\<lambda>mt.
                    Inr (Some \<lparr>bwb_baseAmount = ba, minimumTargetAmount = mt\<rparr>,
                         Some ests, baseAmountNum))))))))"

text \<open>Lines 1330 to 1358: the source account, when the caller gave none.\<close>

definition buy_source_block :: "Chain \<Rightarrow> IBuyArgs \<Rightarrow> rat number \<Rightarrow> error + unit" where
  "buy_source_block env a maxPrice =
     (if sourceGiven a then Inr ()
      else if baseIsWrappedSol env
      then bind_err (createTemporaryWSolAccount (wrappedSolMint env) maxPrice) (\<lambda>_. Inr ())
      else if sourceExists env then Inr ()
      else Inl (Error ''Source account does not exist''))"

text \<open>\<^verbatim>\<open>rootEstimates?.map(toU128)\<close>.\<close>

definition map_toU128 :: "decimal number list option \<Rightarrow> error + int list option" where
  "map_toU128 ests =
     (case ests of
        None \<Rightarrow> Inr None
      | Some es \<Rightarrow> bind_err (map_err (\<lambda>x. toU128 (Num x)) es) (\<lambda>ys. Inr (Some ys)))"

definition buyInstructions :: "Chain \<Rightarrow> IBuyArgs \<Rightarrow> error + BuyV0Args" where
  "buyInstructions env a =
     bind_err (buy_desired_block env a) (\<lambda>(bta, ests0, maxPrice0).
     bind_err (buy_base_block env a ests0 maxPrice0) (\<lambda>(bwb, ests, maxPrice).
     bind_err (buy_source_block env a maxPrice) (\<lambda>_.
     bind_err (map_toU128 ests) (\<lambda>res.
     Inr \<lparr>arg_buyTargetAmount = bta, arg_buyWithBase = bwb, rootEstimates = res\<rparr>))))"

text \<open>
  \<^verbatim>\<open>sellInstructions\<close> (lines 1424 to 1574): the checks that throw, then from line 1529
  \<^verbatim>\<open>
  const targetAmountNum = toNumber(targetAmount, targetMint);
  const reclaimedAmount = curve.sellTargetAmount(targetAmountNum,
    tokenBondingAcct.sellBaseRoyaltyPercentage, tokenBondingAcct.sellTargetRoyaltyPercentage);
  const minPrice = Math.ceil(
    reclaimedAmount * (1 - slippage) * Math.pow(10, baseMint.decimals));
  const args = { targetAmount: toBN(targetAmount, targetMint), minimumPrice: new BN(minPrice),
    rootEstimates: curve.buyTargetAmountRootEstimates(targetAmountNum,
      tokenBondingAcct.sellTargetRoyaltyPercentage).map(toU128) };
  \<close>
\<close>

record ISellArgs =
  sell_sourceGiven :: bool
  sell_destinationGiven :: bool
  sell_targetAmount :: "rat num_or_BN"
  sell_slippage :: "rat number"

record SellV0Args =
  arg_targetAmount :: int
  minimumPrice :: int
  sell_rootEstimates :: "int list"

definition sellInstructions :: "Chain \<Rightarrow> ISellArgs \<Rightarrow> error + SellV0Args" where
  "sellInstructions env a =
     (let acct = tokenBondingAcct env in
      if sellFrozen acct then Inl (Error ''Sell is frozen on this bonding curve'')
      else if \<not> sell_sourceGiven a \<and> \<not> sourceExists env
      then Inl (Error ''Source account does not exist'')
      else
        bind_err (if \<not> sell_destinationGiven a \<and> baseIsWrappedSol env
                  then bind_err (createTemporaryWSolAccount (wrappedSolMint env) (Finite 0))
                         (\<lambda>_. Inr ())
                  else Inr ()) (\<lambda>_.
        (let targetAmountNum = toNumber (amountAsNum env) (sell_targetAmount a) (targetMint env)
         in bind_err (sellTargetAmount (pricing env) targetAmountNum
                        (sellBaseRoyaltyPercentage acct) (sellTargetRoyaltyPercentage acct))
              (\<lambda>reclaimedAmount.
            (let minPrice = Math_ceil
                   (js_mul (js_mul reclaimedAmount (js_sub (Finite 1) (sell_slippage a)))
                      (Math_pow10 (decimals (baseMint env))))
             in bind_err (toBN (sell_targetAmount a) (targetMint env)) (\<lambda>ta.
                bind_err (BN_of_number minPrice) (\<lambda>mp.
                bind_err (buyTargetAmountRootEstimates (pricing env) targetAmountNum
                            (sellTargetRoyaltyPercentage acct)) (\<lambda>ests.
                bind_err (map_err (\<lambda>x. toU128 (Num x)) ests) (\<lambda>res.
                Inr \<lparr>arg_targetAmount = ta, minimumPrice = mp,
                     sell_rootEstimates = res\<rparr>)))))))))"

text \<open>
  The earlier SDK, whose text follows the page in
  \<^verbatim>\<open>packages/marketplace-ui/pages/index.tsx\<close>: \<^verbatim>\<open>sellV0Instructions\<close> reads the target
  mint only, prices with the logarithmic curve and has no royalties on a sale. The curve
  functions \<^verbatim>\<open>startFinishLogCurve(curve)\<close>, \<^verbatim>\<open>supplyAsNum\<close> and \<^verbatim>\<open>amountAsNum\<close> come
  from \<^verbatim>\<open>./pricing\<close>, which is not among the sources, and are parameters.
  \<^verbatim>\<open>
  const targetAmountNum = amountAsNum(targetAmount, targetMint);
  const reclaimedAmount = startFinishLogCurve(curve)(
    supplyAsNum(targetMint) - targetAmountNum, targetAmountNum);
  const minPrice = Math.ceil(
    reclaimedAmount * (1 - slippage) * Math.pow(10, targetMint.decimals));
  const args = { targetAmount, minimumPrice: new BN(minPrice) };
  \<close>
\<close>

record ChainV0 =
  v0_targetMint :: MintInfo
  v0_baseMint :: MintInfo
  v0_startFinishLogCurve :: "rat number \<Rightarrow> rat number \<Rightarrow> error + rat number"
  v0_supplyAsNum :: "MintInfo \<Rightarrow> rat number"
  v0_amountAsNum :: "int \<Rightarrow> MintInfo \<Rightarrow> rat number"
  v0_baseIsNativeMint :: bool
  v0_wrappedSolMint :: MintInfo
  v0_sourceExists :: bool

record ISellV0Args =
  v0_sourceGiven :: bool
  v0_destinationGiven :: bool
  v0_targetAmount :: int
  v0_slippage :: "rat number"

record SellV0Wire =
  wire_targetAmount :: int
  wire_minimumPrice :: int

definition sellV0Instructions :: "ChainV0 \<Rightarrow> ISellV0Args \<Rightarrow> error + SellV0Wire" where
  "sellV0Instructions env a =
     (if \<not> v0_sourceGiven a \<and> \<not> v0_sourceExists env
      then Inl (Error ''Source account does not exist'')
      else
        bind_err (if \<not> v0_destinationGiven a \<and> v0_baseIsNativeMint env
                  then bind_err (createTemporaryWSolAccount (v0_wrappedSolMint env) (Finite 0))
                         (\<lambda>_. Inr ())
                  else Inr ()) (\<lambda>_.
        (let targetAmountNum = v0_amountAsNum env (v0_targetAmount a) (v0_targetMint env)
         in bind_err (v0_startFinishLogCurve env
                        (js_sub (v0_supplyAsNum env (v0_targetMint env)) targetAmountNum)
                        targetAmountNum)
              (\<lambda>reclaimedAmount.
            (let minPrice = Math_ceil
                   (js_mul (js_mul reclaimedAmount (js_sub (Finite 1) (v0_slippage a)))
                      (Math_pow10 (decimals (v0_targetMint env))))
             in bind_err (BN_of_number minPrice) (\<lambda>mp.
                Inr \<lparr>wire_targetAmount = v0_targetAmount a, wire_minimumPrice = mp\<rparr>))))))"

section \<open>The needed amount in double precision\<close>


text \<open>The nearest integer, the even one of the two when \<open>x\<close> lies half way.\<close>

definition round_half_even :: "rat \<Rightarrow> int" where
  "round_half_even x =
     (let f = \<lfloor>x\<rfloor>; r = x - of_int f
      in if r < 1 / 2 then f else if 1 / 2 < r then f + 1 else if even f then f else f + 1)"





section \<open>Inputs for the examples\<close>

text \<open>
  A pricing curve that quotes one base token per target token and returns fixed root
  estimates, and the chain state around it, with the buy target royalty as a parameter.
\<close>

definition example_pricing :: IPricingCurve where
  "example_pricing =
     \<lparr>buyTargetAmount = (\<lambda>x bp tp. Inr x),
      buyWithBaseAmount = (\<lambda>x bp tp. Inr x),
      sellTargetAmount = (\<lambda>x bp tp. Inr x),
      buyTargetAmountRootEstimates = (\<lambda>x tp. Inr [Finite (Decimal False [1, 5] 1)]),
      buyWithBaseRootEstimates = (\<lambda>x bp. Inr [Finite (Decimal False [2] 1), Finite (Decimal False [2, 5] 1)])\<rparr>"

definition example_chain :: "u32 \<Rightarrow> Chain" where
  "example_chain pct =
     \<lparr>tokenBondingAcct =
        \<lparr>buyBaseRoyaltyPercentage = 0, buyTargetRoyaltyPercentage = pct,
         sellBaseRoyaltyPercentage = 0, sellTargetRoyaltyPercentage = 0, sellFrozen = False\<rparr>,
      targetMint = \<lparr>decimals = 9\<rparr>,
      baseMint = \<lparr>decimals = 6\<rparr>,
      pricing = example_pricing,
      amountAsNum = (\<lambda>b m. Finite (of_int b / 10 ^ decimals m)),
      baseIsWrappedSol = False,
      wrappedSolMint = \<lparr>decimals = 9\<rparr>,
      sourceExists = True\<rparr>"

text \<open>The chain state for the earlier SDK: 9 target decimals, 6 base decimals.\<close>

definition example_chain_v0 :: ChainV0 where
  "example_chain_v0 =
     \<lparr>v0_targetMint = \<lparr>decimals = 9\<rparr>,
      v0_baseMint = \<lparr>decimals = 6\<rparr>,
      v0_startFinishLogCurve = (\<lambda>start amount. Inr amount),
      v0_supplyAsNum = (\<lambda>m. Finite 100),
      v0_amountAsNum = (\<lambda>b m. Finite (of_int b / 10 ^ decimals m)),
      v0_baseIsNativeMint = False,
      v0_wrappedSolMint = \<lparr>decimals = 9\<rparr>,
      v0_sourceExists = True\<rparr>"

text \<open>
  The number \<^verbatim>\<open>1.2345678901234e-7\<close>, and the chain state with a curve that returns it
  as its only root estimate for a desired target amount.
\<close>

definition small_number :: decimal where
  "small_number = Decimal False [1, 2, 3, 4, 5, 6, 7, 8, 9, 0, 1, 2, 3, 4] (- 6)"

definition small_estimate_chain :: Chain where
  "small_estimate_chain =
     (example_chain 0)
       \<lparr>pricing := example_pricing
          \<lparr>buyTargetAmountRootEstimates := (\<lambda>x tp. Inr [Finite small_number])\<rparr>\<rparr>"

section \<open>Evaluation lemmas\<close>

lemma trunc_0 [simp]: "trunc 0 = 0"
  by (simp add: trunc_def)

lemma trunc_of_int [simp]: "trunc (of_int n) = n"
  by (simp add: trunc_def)

lemma trunc_numeral [simp]: "trunc (numeral k) = numeral k"
  by (simp add: trunc_def)

lemma replicate_numeral_unfold: "replicate (numeral k) x = x # replicate (pred_numeral k) x"
  by (simp add: numeral_eq_Suc)

lemmas render_defs = replicate_numeral_unfold first_elem_def second_elem_def or_empty_def
  slice0_def padEnd_def Number_of_def Number_def parse_sign_def parse_exponent_def is_digit_def
  digit_val_def digit_char_def int_of_string_def scale10_def to_double_range_def
  BN_of_string_def is_space_def Let_def

lemma bind_err_simps [simp]: "bind_err (Inl e) f = Inl e" "bind_err (Inr x) f = f x"
  by (simp_all add: bind_err_def)

lemma bind_err_Inr_iff: "bind_err m f = Inr y \<longleftrightarrow> (\<exists>x. m = Inr x \<and> f x = Inr y)"
  by (cases m) simp_all

lemma map_err_Inr: "map_err f xs = Inr ys \<Longrightarrow> map f xs = map Inr ys"
proof (induction xs arbitrary: ys)
  case Nil
  then show ?case by simp
next
  case (Cons x xs)
  from Cons.prems obtain y zs where y: "f x = Inr y" and zs: "map_err f xs = Inr zs"
    and ys: "ys = y # zs"
    by (auto simp: bind_err_Inr_iff)
  from Cons.IH [OF zs] y ys show ?case by simp
qed

section \<open>\<^verbatim>\<open>toU128\<close>\<close>

lemma toU128_BN: "toU128 (BN b) = Inr b"
  by (simp add: toU128_def)

lemma toU128_NaN: "toU128 (Num NaN) = Inr 0"
  by (simp add: toU128_def render_defs)

lemma toU128_Infinity: "toU128 (Num (Infinity s)) = Inr 0"
  by (cases s) (simp_all add: toU128_def render_defs)

lemma toU128_one_and_a_half: "toU128 (Num (Finite (Decimal False [1, 5] 1))) = Inr 1500000000000"
  by (simp add: toU128_def render_defs)

lemma small_number_value:
  "wf_decimal small_number
   \<and> decimal_value small_number = 12345678901234 / 10 ^ 20
   \<and> toString (Finite small_number) = ''1.2345678901234e-7''"
  by (simp add: small_number_def digits_value_def render_defs string_of_nat.simps)

lemma fixed12_small_number: "fixed12 small_number = 123456"
proof -
  have "decimal_value small_number * 10 ^ 12 = 12345678901234 / 10 ^ 8"
    by (simp add: small_number_def digits_value_def)
  moreover have "\<lfloor>(12345678901234 :: rat) / 10 ^ 8\<rfloor> = 123456"
    by (rule floor_unique) simp_all
  ultimately show ?thesis by (simp only: fixed12_def)
qed

lemma toU128_small_number: "toU128 (Num (Finite small_number)) = Inr 1234567890123"
  by (simp add: small_number_def toU128_def render_defs string_of_nat.simps)

text \<open>
  Claim C2. For every finite non-negative decimal number, \<^verbatim>\<open>toU128\<close> returns the integer
  formed from the integer part followed by the first 12 fractional digits; a \<^verbatim>\<open>BN\<close> is
  returned unchanged. The number \<^verbatim>\<open>0.0000001\<close> is a well-formed non-negative decimal whose
  encoding is 100000, but \<^verbatim>\<open>toString\<close> renders it as \<^verbatim>\<open>1e-7\<close>, there is no dot to split
  at, and \<^verbatim>\<open>new BN("1e-7000000000000")\<close> fails: the code misses the numbers that
  JavaScript prints with an exponent.
\<close>

theorem toU128_exponent_rendering:
  "wf_decimal (Decimal False [1] (- 6))
   \<and> decimal_value (Decimal False [1] (- 6)) = 1 / 10 ^ 7
   \<and> fixed12 (Decimal False [1] (- 6)) = 100000
   \<and> toString (Finite (Decimal False [1] (- 6))) = ''1e-7''
   \<and> toU128 (Num (Finite (Decimal False [1] (- 6)))) = Inl (Error ''Invalid character'')"
  by (simp add: fixed12_def digits_value_def toU128_def render_defs string_of_nat.simps)

text \<open>
  Claim C10. For every number whose integer part (the rendering before the first dot) does
  not convert to a finite number, \<^verbatim>\<open>toU128\<close> returns the \<^verbatim>\<open>BN\<close> 0 and raises no error.
\<close>

theorem toU128_unparsable_zero:
  assumes "isNaN (Number_of (first_elem (split_dot (toString x))))
           \<or> \<not> isFinite (Number_of (first_elem (split_dot (toString x))))"
  shows "toU128 (Num x) = Inr 0"
  using assms by (simp add: toU128_def Let_def)

theorem toU128_unparsable_zero_witness:
  "(isNaN (Number_of (first_elem (split_dot (toString (Infinity True)))))
    \<or> \<not> isFinite (Number_of (first_elem (split_dot (toString (Infinity True))))))
   \<and> toU128 (Num (Infinity True)) = Inr 0"
proof -
  have h: "isNaN (Number_of (first_elem (split_dot (toString (Infinity True)))))
           \<or> \<not> isFinite (Number_of (first_elem (split_dot (toString (Infinity True)))))"
    by (simp add: render_defs)
  from h toU128_unparsable_zero [OF h] show ?thesis by simp
qed

section \<open>Curve configurations\<close>

text \<open>
  \<^verbatim>\<open>toRawConfig\<close> of a constructed configuration is a time curve with exactly one
  entry, at offset 0, whose curve is the exponential primitive with the fields \<open>c\<close>,
  \<open>b\<close>, \<open>pow\<close>, \<open>frac\<close> in this order; \<open>c\<close> and \<open>b\<close> are what \<^verbatim>\<open>toU128\<close>
  returns for the constructor's arguments (or for the defaults 1 and 0), \<open>pow\<close> and
  \<open>frac\<close> are the arguments unchanged (or the default 1).
\<close>

lemma toRawConfig_fields:
  assumes "new_ExponentialCurveConfig c b p f = Inr cfg"
  shows "toRawConfig cfg =
           TimeV0 [TimeCurveEntryV0 0
                     (ExponentialCurveV0 (cfg_c cfg) (cfg_b cfg) (cfg_pow cfg) (cfg_frac cfg))]
         \<and> toU128 (default_to (Num (Finite (Decimal False [1] 1))) c) = Inr (cfg_c cfg)
         \<and> toU128 (default_to (Num (Finite (Decimal False [0] 1))) b) = Inr (cfg_b cfg)
         \<and> cfg_pow cfg = default_to (Finite 1) p
         \<and> cfg_frac cfg = default_to (Finite 1) f"
  using assms
  by (auto simp: new_ExponentialCurveConfig_def bind_err_Inr_iff toRawConfig_def
      toRawPrimitiveConfig_def)

lemma toRawConfig_fields_example:
  "new_ExponentialCurveConfig (Some (Num (Finite (Decimal False [1, 5] 1)))) None
     (Some (Finite 2)) None
   = Inr \<lparr>cfg_c = 1500000000000, cfg_b = 0, cfg_pow = Finite 2, cfg_frac = Finite 1\<rparr>"
  by (simp add: new_ExponentialCurveConfig_def default_to_def toU128_def render_defs)

text \<open>
  Claim C9. The claim has \<open>c\<close> and \<open>b\<close> of the raw configuration be the 12-decimal
  fixed-point encodings of the coefficients. The shape is as claimed (one entry, offset 0,
  fields in order), but the coefficient \<^verbatim>\<open>c = 1.2345678901234e-7\<close>, whose encoding is
  123456, is stored as 1234567890123, the digits of its mantissa, and the coefficient
  \<^verbatim>\<open>c = 1e-7\<close> makes the constructor throw. \<^verbatim>\<open>toU128\<close> misses the numbers that
  JavaScript prints with an exponent, as for claim C2.
\<close>

theorem exponential_config_exponent_rendering:
  "toString (Finite small_number) = ''1.2345678901234e-7''
   \<and> fixed12 small_number = 123456
   \<and> new_ExponentialCurveConfig (Some (Num (Finite small_number))) None None None
     = Inr \<lparr>cfg_c = 1234567890123, cfg_b = 0, cfg_pow = Finite 1, cfg_frac = Finite 1\<rparr>
   \<and> toRawConfig \<lparr>cfg_c = 1234567890123, cfg_b = 0, cfg_pow = Finite 1, cfg_frac = Finite 1\<rparr>
     = TimeV0 [TimeCurveEntryV0 0 (ExponentialCurveV0 1234567890123 0 (Finite 1) (Finite 1))]
   \<and> new_ExponentialCurveConfig (Some (Num (Finite (Decimal False [1] (- 6))))) None None None
     = Inl (Error ''Invalid character'')"
proof -
  have "toU128 (Num (Finite (Decimal False [0] 1))) = Inr 0"
    by (simp add: toU128_def render_defs)
  moreover have "toU128 (Num (Finite (Decimal False [1] (- 6)))) = Inl (Error ''Invalid character'')"
    by (simp add: toU128_def render_defs string_of_nat.simps)
  ultimately show ?thesis
    using small_number_value fixed12_small_number toU128_small_number
    by (simp add: new_ExponentialCurveConfig_def default_to_def toRawConfig_def
        toRawPrimitiveConfig_def)
qed

lemma BN_of_int_offset:
  assumes "\<bar>n\<bar> < 2 ^ 53"
  shows "BN_of_number (Finite (of_int n)) = Inr n"
proof -
  have "\<bar>rat_of_int n\<bar> < rat_of_int (2 ^ 53)"
    using assms by (simp only: of_int_abs [symmetric] of_int_less_iff)
  then show ?thesis by simp
qed

lemma addCurve_later:
  assumes "curves this \<noteq> []" and "\<bar>n\<bar> < 2 ^ 53"
  shows "addCurve (Finite (of_int n)) c this = Inr (this\<lparr>curves := curves this @ [(c, n)]\<rparr>)"
  using assms(1) by (simp add: addCurve_def BN_of_int_offset [OF assms(2)] del: BN_of_number.simps)

lemma addCurve_first:
  assumes "\<bar>n\<bar> < 2 ^ 53"
  shows "addCurve (Finite (of_int n)) c new_TimeCurveConfig =
           (if n \<noteq> 0 then Inl (Error ''First time offset must be 0'')
            else Inr \<lparr>curves = [(c, n)]\<rparr>)"
proof (cases "n = 0")
  case True
  then show ?thesis by (simp add: addCurve_def new_TimeCurveConfig_def)
next
  case False
  then show ?thesis by (simp add: addCurve_def new_TimeCurveConfig_def)
qed

lemma addCurves_later:
  assumes "curves this \<noteq> []" and "\<forall>(n, c) \<in> set ncs. \<bar>n\<bar> < 2 ^ 53"
  shows "addCurves (map (\<lambda>(n, c). (Finite (of_int n), c)) ncs) this
         = Inr (this\<lparr>curves := curves this @ map (\<lambda>(n, c). (c, n)) ncs\<rparr>)"
  using assms
proof (induction ncs arbitrary: this)
  case Nil
  then show ?case by simp
next
  case (Cons nc ncs)
  obtain n c where nc: "nc = (n, c)" by (cases nc)
  from Cons.prems nc have n: "\<bar>n\<bar> < 2 ^ 53" and rest: "\<forall>(n, c) \<in> set ncs. \<bar>n\<bar> < 2 ^ 53"
    by auto
  let ?next = "this\<lparr>curves := curves this @ [(c, n)]\<rparr>"
  have "curves ?next \<noteq> []" by simp
  from Cons.IH [OF this rest] addCurve_later [OF Cons.prems(1) n, of c]
  show ?case by (simp add: nc)
qed

text \<open>
  Claim C3, as amended. The claim asks that a time curve whose offsets do not strictly
  increase from zero is rejected with \<open>InvalidCurveDefinition\<close>. \<^verbatim>\<open>addCurve\<close> checks one
  thing: the first offset must be 0, or it throws \<^verbatim>\<open>Error("First time offset must be 0")\<close>.
  For integer offsets that \<^verbatim>\<open>BN\<close> accepts (magnitude below \<open>2 ^ 53\<close>), a chain of calls
  fails exactly when its first offset is not 0, and otherwise stores every curve with its
  offset, whatever the order of the later offsets.
\<close>

theorem addCurves_checks_first_offset_only:
  assumes "\<forall>(n, c) \<in> set ncs. \<bar>n\<bar> < 2 ^ 53"
  shows "addCurves (map (\<lambda>(n, c). (Finite (of_int n), c)) ncs) new_TimeCurveConfig =
           (if ncs \<noteq> [] \<and> fst (hd ncs) \<noteq> 0
            then Inl (Error ''First time offset must be 0'')
            else Inr \<lparr>curves = map (\<lambda>(n, c). (c, n)) ncs\<rparr>)"
proof (cases ncs)
  case Nil
  then show ?thesis by (simp add: new_TimeCurveConfig_def)
next
  case (Cons nc rest)
  obtain n c where nc: "nc = (n, c)" by (cases nc)
  from assms Cons nc have n: "\<bar>n\<bar> < 2 ^ 53" and r: "\<forall>(n, c) \<in> set rest. \<bar>n\<bar> < 2 ^ 53"
    by auto
  show ?thesis
  proof (cases "n = 0")
    case True
    have "curves \<lparr>curves = [(c, n)]\<rparr> \<noteq> []" by simp
    from addCurves_later [OF this r] addCurve_first [OF n, of c] True
    show ?thesis by (simp add: Cons nc)
  next
    case False
    with addCurve_first [OF n, of c] show ?thesis by (simp add: Cons nc)
  qed
qed

theorem addCurves_checks_first_offset_only_witness:
  "addCurves [(Finite 0, \<lparr>cfg_c = 1000000000000, cfg_b = 0, cfg_pow = Finite 1, cfg_frac = Finite 1\<rparr>),
              (Finite 60, \<lparr>cfg_c = 2000000000000, cfg_b = 0, cfg_pow = Finite 1, cfg_frac = Finite 1\<rparr>)]
     new_TimeCurveConfig
   = Inr \<lparr>curves = [(\<lparr>cfg_c = 1000000000000, cfg_b = 0, cfg_pow = Finite 1, cfg_frac = Finite 1\<rparr>, 0),
                     (\<lparr>cfg_c = 2000000000000, cfg_b = 0, cfg_pow = Finite 1, cfg_frac = Finite 1\<rparr>, 60)]\<rparr>"
  using addCurves_checks_first_offset_only
    [of "[(0, \<lparr>cfg_c = 1000000000000, cfg_b = 0, cfg_pow = Finite 1, cfg_frac = Finite 1\<rparr>),
          (60, \<lparr>cfg_c = 2000000000000, cfg_b = 0, cfg_pow = Finite 1, cfg_frac = Finite 1\<rparr>)]"]
  by simp

text \<open>
  The claim C3 as stated fails: the offsets 0, 5, 3 are accepted, and the offset 5 in
  first place is rejected with a plain \<^verbatim>\<open>Error\<close>, not with \<open>InvalidCurveDefinition\<close>.
\<close>

theorem addCurves_unordered_counterexample:
  "addCurves [(Finite 0, \<lparr>cfg_c = 1000000000000, cfg_b = 0, cfg_pow = Finite 1, cfg_frac = Finite 1\<rparr>),
              (Finite 5, \<lparr>cfg_c = 2000000000000, cfg_b = 0, cfg_pow = Finite 1, cfg_frac = Finite 1\<rparr>),
              (Finite 3, \<lparr>cfg_c = 3000000000000, cfg_b = 0, cfg_pow = Finite 1, cfg_frac = Finite 1\<rparr>)]
     new_TimeCurveConfig
   = Inr \<lparr>curves = [(\<lparr>cfg_c = 1000000000000, cfg_b = 0, cfg_pow = Finite 1, cfg_frac = Finite 1\<rparr>, 0),
                     (\<lparr>cfg_c = 2000000000000, cfg_b = 0, cfg_pow = Finite 1, cfg_frac = Finite 1\<rparr>, 5),
                     (\<lparr>cfg_c = 3000000000000, cfg_b = 0, cfg_pow = Finite 1, cfg_frac = Finite 1\<rparr>, 3)]\<rparr>
   \<and> \<not> increasing_from_zero [0, 5, 3]
   \<and> addCurves [(Finite 5, \<lparr>cfg_c = 1000000000000, cfg_b = 0, cfg_pow = Finite 1, cfg_frac = Finite 1\<rparr>)]
       new_TimeCurveConfig
     = Inl (Error ''First time offset must be 0'')
   \<and> \<not> increasing_from_zero [5]
   \<and> Error ''First time offset must be 0'' \<noteq> InvalidCurveDefinition"
  by (simp add: addCurve_def new_TimeCurveConfig_def increasing_from_zero_def)

section \<open>Rounding to double precision\<close>






lemma round_half_even_of_int [simp]: "round_half_even (of_int m) = m"
  by (simp add: round_half_even_def)








lemma round_half_even_tie_down:
  assumes "x = of_int m + 1 / 2" and "even m"
  shows "round_half_even x = m"
proof -
  have f: "\<lfloor>x\<rfloor> = m" unfolding assms(1) by (rule floor_unique) simp_all
  have "x - of_int m = 1 / 2" by (simp add: assms(1))
  then show ?thesis
    using assms(2) by (simp add: round_half_even_def f Let_def)
qed




section \<open>Buying\<close>


lemma unat_max_u32: "unat (- 1 :: u32) = 4294967295"
  by (simp add: unsigned_minus_1_eq_mask mask_eq_exp_minus_1)

lemma unsigned_max_u32_rat [simp]: "(unsigned (- 1 :: u32) :: rat) = 4294967295"
proof -
  have "(of_nat (unat (- 1 :: u32)) :: rat) = of_nat 4294967295"
    by (simp only: unat_max_u32)
  then show ?thesis by simp
qed

lemma asDecimal_full: "asDecimal (- 1) = Finite 1"
  by (simp add: asDecimal_def unat_max_u32)

lemma one_minus_asDecimal:
  "js_sub (Finite 1) (asDecimal pct) = Finite (1 - of_nat (unat pct) / 4294967295)"
  by (simp add: js_sub_def asDecimal_def)

lemma buy_desired_block_Inr:
  assumes "buy_desired_block env a = Inr (bta, ests, mp)"
      and "desiredTargetAmount a = Some amt" and "truthy (Some amt)"
  shows "\<exists>ta m es.
           bta = Some \<lparr>targetAmount = ta, maximumPrice = m\<rparr>
           \<and> BN_of_number (Math_floor (js_mul
                 (neededAmount (toNumber (amountAsNum env) amt (targetMint env))
                    (buyTargetRoyaltyPercentage (tokenBondingAcct env)))
                 (Math_pow10 (decimals (targetMint env))))) = Inr ta
           \<and> buyTargetAmountRootEstimates (pricing env)
                 (toNumber (amountAsNum env) amt (targetMint env))
                 (buyTargetRoyaltyPercentage (tokenBondingAcct env)) = Inr es
           \<and> ests = Some es"
  using assms
  by (auto simp: buy_desired_block_def Let_def bind_err_Inr_iff)

lemma buy_desired_block_skip:
  assumes "\<not> truthy (desiredTargetAmount a)"
  shows "buy_desired_block env a = Inr (None, None, Finite 0)"
  using assms by (auto simp: buy_desired_block_def split: option.splits)

lemma buy_base_block_Inr:
  assumes "buy_base_block env a e0 m0 = Inr (bwb, ests, mp)"
      and "baseAmount a = Some amt" and "truthy (Some amt)"
  shows "\<exists>es. buyWithBaseRootEstimates (pricing env)
                 (toNumber (amountAsNum env) amt (baseMint env))
                 (buyBaseRoyaltyPercentage (tokenBondingAcct env)) = Inr es
           \<and> ests = Some es"
  using assms
  by (auto simp: buy_base_block_def Let_def bind_err_Inr_iff)

lemma buy_base_block_skip:
  assumes "\<not> truthy (baseAmount a)"
  shows "buy_base_block env a e0 m0 = Inr (None, e0, m0)"
  using assms by (auto simp: buy_base_block_def split: option.splits)

lemma buyInstructions_Inr:
  assumes "buyInstructions env a = Inr args"
  shows "\<exists>bta e0 m0 bwb es m.
           buy_desired_block env a = Inr (bta, e0, m0)
           \<and> buy_base_block env a e0 m0 = Inr (bwb, es, m)
           \<and> map_toU128 es = Inr (rootEstimates args)
           \<and> arg_buyTargetAmount args = bta \<and> arg_buyWithBase args = bwb"
  using assms
  by (auto simp: buyInstructions_def bind_err_Inr_iff)

lemma map_toU128_Some:
  assumes "map_toU128 (Some es) = Inr r"
  shows "\<exists>ys. r = Some ys \<and> map (\<lambda>x. toU128 (Num x)) es = map Inr ys"
  using assms by (auto simp: map_toU128_def bind_err_Inr_iff dest: map_err_Inr)

subsection \<open>The needed amount\<close>










lemma bind_err_fail_absorb:
  "bind_err (bind_err A (\<lambda>x. bind_err (B x) (\<lambda>y. Inl e))) K
   = bind_err A (\<lambda>x. bind_err (B x) (\<lambda>y. Inl e))"
  by (auto simp: bind_err_def split: sum.splits)

lemmas buy_defs = buyInstructions_def buy_desired_block_def buy_base_block_def
  buy_source_block_def map_toU128_def toNumber_def toBN_def neededAmount_def asDecimal_def
  js_sub_def Math_pow10_def createTemporaryWSolAccount_def

lemmas example_defs = example_chain_def example_pricing_def



subsection \<open>A royalty of 100%\<close>

text \<open>
  At the numerator \<open>2 ^ 32 - 1\<close> the royalty is 1, \<^verbatim>\<open>1 - 1\<close> is 0 and \<^verbatim>\<open>1 / 0\<close> is
  \<^verbatim>\<open>Infinity\<close>. The product with the desired amount is an infinity, or \<^verbatim>\<open>NaN\<close> when
  the desired amount is 0 (the \<^verbatim>\<open>BN\<close> 0, which is an object and passes
  \<^verbatim>\<open>if (desiredTargetAmount)\<close>) or is itself \<^verbatim>\<open>NaN\<close>. All these values are special
  values of the IEEE arithmetic: no rounding is involved.
\<close>

lemma reciprocal_full_royalty:
  "js_div (Finite 1) (js_sub (Finite 1) (asDecimal (- 1))) = Infinity False"
  by (simp add: asDecimal_full js_sub_def)

lemma neededAmount_full_nonzero:
  assumes "n \<noteq> NaN" and "n \<noteq> Finite 0"
  shows "\<exists>s. neededAmount n (- 1) = Infinity s"
  using assms by (cases n) (simp_all add: neededAmount_def reciprocal_full_royalty)

lemma neededAmount_full_zero:
  assumes "n = NaN \<or> n = Finite 0"
  shows "neededAmount n (- 1) = NaN"
  using assms by (auto simp: neededAmount_def reciprocal_full_royalty)

lemma BN_of_scaled_Infinity:
  "BN_of_number (Math_floor (js_mul (Infinity s) (Math_pow10 d))) = Inl (Error ''Assertion failed'')"
  by (simp add: Math_pow10_def)

lemma BN_of_scaled_NaN: "BN_of_number (Math_floor (js_mul NaN (Math_pow10 d))) = Inr 0"
  by (simp add: Math_pow10_def)

lemma buyInstructions_full_royalty:
  assumes "buyTargetRoyaltyPercentage (tokenBondingAcct env) = - 1"
      and "desiredTargetAmount a = Some amt" and "truthy (Some amt)"
      and "toNumber (amountAsNum env) amt (targetMint env) \<noteq> NaN"
      and "toNumber (amountAsNum env) amt (targetMint env) \<noteq> Finite 0"
  shows "buyInstructions env a =
           bind_err (buyTargetAmount (pricing env)
                       (toNumber (amountAsNum env) amt (targetMint env))
                       (buyBaseRoyaltyPercentage (tokenBondingAcct env)) (- 1)) (\<lambda>_.
           bind_err (buyTargetAmountRootEstimates (pricing env)
                       (toNumber (amountAsNum env) amt (targetMint env)) (- 1)) (\<lambda>_.
           Inl (Error ''Assertion failed'')))"
proof -
  let ?n = "toNumber (amountAsNum env) amt (targetMint env)"
  from neededAmount_full_nonzero [OF assms(4,5)]
  obtain s where inf: "neededAmount ?n (- 1) = Infinity s"
    by blast
  have blk: "buy_desired_block env a =
               bind_err (buyTargetAmount (pricing env) ?n
                           (buyBaseRoyaltyPercentage (tokenBondingAcct env)) (- 1)) (\<lambda>_.
               bind_err (buyTargetAmountRootEstimates (pricing env) ?n (- 1)) (\<lambda>_.
               Inl (Error ''Assertion failed'')))"
    using assms(3)
    by (simp add: buy_desired_block_def assms(1,2) Let_def inf BN_of_scaled_Infinity
        del: truthy.simps BN_of_number.simps Math_floor.simps js_mul.simps)
  show ?thesis
    unfolding buyInstructions_def blk by (rule bind_err_fail_absorb)
qed

lemma buyInstructions_full_royalty_zero:
  assumes "buyTargetRoyaltyPercentage (tokenBondingAcct env) = - 1"
      and "desiredTargetAmount a = Some amt" and "truthy (Some amt)"
      and "toNumber (amountAsNum env) amt (targetMint env) = NaN
           \<or> toNumber (amountAsNum env) amt (targetMint env) = Finite 0"
      and "buyInstructions env a = Inr args"
  shows "\<exists>bt. arg_buyTargetAmount args = Some bt \<and> targetAmount bt = 0"
proof -
  from buyInstructions_Inr [OF assms(5)] obtain bta e0 m0
    where blk: "buy_desired_block env a = Inr (bta, e0, m0)"
      and bta: "arg_buyTargetAmount args = bta"
    by blast
  from buy_desired_block_Inr [OF blk assms(2,3)] obtain ta m
    where b: "bta = Some \<lparr>targetAmount = ta, maximumPrice = m\<rparr>"
      and ta: "BN_of_number (Math_floor (js_mul
                 (neededAmount (toNumber (amountAsNum env) amt (targetMint env))
                    (buyTargetRoyaltyPercentage (tokenBondingAcct env)))
                 (Math_pow10 (decimals (targetMint env))))) = Inr ta"
    by blast
  from ta have "ta = 0"
    by (simp only: assms(1) neededAmount_full_zero [OF assms(4)] BN_of_scaled_NaN sum.inject)
  with b bta show ?thesis by simp
qed

text \<open>
  The errors that the steps of \<^verbatim>\<open>buyInstructions\<close> raise themselves are plain
  \<^verbatim>\<open>Error\<close>s; a typed error can only come out of the curve.
\<close>

lemma BN_of_number_error: "BN_of_number x = Inl e \<Longrightarrow> e = Error ''Assertion failed''"
  by (cases x) (auto split: if_splits)

lemma toBN_error: "toBN x m = Inl e \<Longrightarrow> e = Error ''Assertion failed''"
  by (auto simp: toBN_def dest: BN_of_number_error split: num_or_BN.splits)

lemma BN_of_string_error: "BN_of_string s = Inl e \<Longrightarrow> e = Error ''Invalid character''"
  by (auto simp: BN_of_string_def Let_def split: if_splits list.splits prod.splits)

lemma toU128_error: "toU128 x = Inl e \<Longrightarrow> e = Error ''Invalid character''"
  by (auto simp: toU128_def Let_def dest: BN_of_string_error split: num_or_BN.splits if_splits)

lemma map_err_error:
  assumes "map_err f xs = Inl e"
  shows "\<exists>x \<in> set xs. f x = Inl e"
  using assms
proof (induction xs)
  case Nil
  then show ?case by simp
next
  case (Cons x xs)
  then show ?case
    by (cases "f x"; cases "map_err f xs") auto
qed

lemma map_toU128_error: "map_toU128 es = Inl e \<Longrightarrow> e = Error ''Invalid character''"
  by (auto simp: map_toU128_def bind_err_def dest!: map_err_error dest: toU128_error
      split: option.splits sum.splits)

lemma buy_source_block_error: "buy_source_block env a m = Inl e \<Longrightarrow> \<exists>msg. e = Error msg"
  by (auto simp: buy_source_block_def createTemporaryWSolAccount_def bind_err_def
      dest: toBN_error split: if_splits sum.splits)

lemma buy_desired_block_error:
  assumes "buy_desired_block env a = Inl e"
  shows "(\<exists>msg. e = Error msg)
         \<or> (\<exists>x b t. buyTargetAmount (pricing env) x b t = Inl e)
         \<or> (\<exists>x t. buyTargetAmountRootEstimates (pricing env) x t = Inl e)"
  using assms
  by (auto simp: buy_desired_block_def Let_def bind_err_def
      dest: toBN_error BN_of_number_error split: option.splits if_splits sum.splits)

lemma buy_base_block_error:
  assumes "buy_base_block env a e0 m0 = Inl e"
  shows "(\<exists>msg. e = Error msg)
         \<or> (\<exists>x b t. buyWithBaseAmount (pricing env) x b t = Inl e)
         \<or> (\<exists>x b. buyWithBaseRootEstimates (pricing env) x b = Inl e)"
  using assms
  by (auto simp: buy_base_block_def Let_def bind_err_def
      dest: toBN_error BN_of_number_error split: option.splits if_splits sum.splits)

lemma buyInstructions_error:
  assumes "buyInstructions env a = Inl e"
  shows "(\<exists>msg. e = Error msg)
         \<or> (\<exists>x b t. buyTargetAmount (pricing env) x b t = Inl e)
         \<or> (\<exists>x t. buyTargetAmountRootEstimates (pricing env) x t = Inl e)
         \<or> (\<exists>x b t. buyWithBaseAmount (pricing env) x b t = Inl e)
         \<or> (\<exists>x b. buyWithBaseRootEstimates (pricing env) x b = Inl e)"
proof (cases "buy_desired_block env a")
  case (Inl e1)
  with assms have "e1 = e" by (simp add: buyInstructions_def)
  with buy_desired_block_error [of env a e] Inl show ?thesis by blast
next
  case (Inr r1)
  obtain bta ests0 maxPrice0 where r1: "r1 = (bta, ests0, maxPrice0)" by (cases r1)
  show ?thesis
  proof (cases "buy_base_block env a ests0 maxPrice0")
    case (Inl e2)
    with assms Inr r1 have "e2 = e" by (simp add: buyInstructions_def)
    with buy_base_block_error [of env a ests0 maxPrice0 e] Inl show ?thesis by blast
  next
    case r2: (Inr r2)
    obtain bwb ests maxPrice where r2': "r2 = (bwb, ests, maxPrice)" by (cases r2)
    show ?thesis
    proof (cases "buy_source_block env a maxPrice")
      case (Inl e3)
      with assms Inr r1 r2 r2' have "e3 = e" by (simp add: buyInstructions_def)
      with buy_source_block_error [of env a maxPrice e] Inl show ?thesis by blast
    next
      case r3: (Inr r3)
      with assms Inr r1 r2 r2' have "map_toU128 ests = Inl e"
        by (cases "map_toU128 ests") (simp_all add: buyInstructions_def)
      from map_toU128_error [OF this] show ?thesis by blast
    qed
  qed
qed

text \<open>
  Claim C4, as amended. The claim asks for the typed error \<open>InvalidRoyalty\<close> at a buy
  target royalty of exactly 100%. \<^verbatim>\<open>buyInstructions\<close> has no such guard: it divides, and
  \<^verbatim>\<open>1 / (1 - 1)\<close> is \<^verbatim>\<open>Infinity\<close>. For a desired amount whose number is neither 0 nor
  \<^verbatim>\<open>NaN\<close> the needed amount is an infinity and, unless a quote function of the curve throws
  first, the build ends in the assertion of \<^verbatim>\<open>new BN(...)\<close> on that amount. For a desired
  amount whose number is 0 (the \<^verbatim>\<open>BN\<close> 0) or \<^verbatim>\<open>NaN\<close> the needed amount is \<^verbatim>\<open>NaN\<close>,
  \<^verbatim>\<open>new BN(NaN)\<close> is 0 and an instruction that is built has the \<^verbatim>\<open>targetAmount\<close> 0. In
  neither case is \<open>InvalidRoyalty\<close> raised, unless the curve raises it.
\<close>

theorem buy_full_royalty_unguarded:
  assumes "buyTargetRoyaltyPercentage (tokenBondingAcct env) = - 1"
      and "desiredTargetAmount a = Some amt" and "truthy (Some amt)"
  shows "js_div (Finite 1) (js_sub (Finite 1) (asDecimal (- 1))) = Infinity False
         \<and> (toNumber (amountAsNum env) amt (targetMint env) \<noteq> NaN
            \<and> toNumber (amountAsNum env) amt (targetMint env) \<noteq> Finite 0 \<longrightarrow>
              (\<exists>s. neededAmount (toNumber (amountAsNum env) amt (targetMint env)) (- 1)
                     = Infinity s)
              \<and> buyInstructions env a =
                  bind_err (buyTargetAmount (pricing env)
                              (toNumber (amountAsNum env) amt (targetMint env))
                              (buyBaseRoyaltyPercentage (tokenBondingAcct env)) (- 1)) (\<lambda>_.
                  bind_err (buyTargetAmountRootEstimates (pricing env)
                              (toNumber (amountAsNum env) amt (targetMint env)) (- 1)) (\<lambda>_.
                  Inl (Error ''Assertion failed''))))
         \<and> (toNumber (amountAsNum env) amt (targetMint env) = NaN
            \<or> toNumber (amountAsNum env) amt (targetMint env) = Finite 0 \<longrightarrow>
              neededAmount (toNumber (amountAsNum env) amt (targetMint env)) (- 1) = NaN
              \<and> (\<forall>args. buyInstructions env a = Inr args \<longrightarrow>
                    (\<exists>bt. arg_buyTargetAmount args = Some bt \<and> targetAmount bt = 0)))
         \<and> ((\<forall>x b t. buyTargetAmount (pricing env) x b t \<noteq> Inl InvalidRoyalty)
            \<and> (\<forall>x t. buyTargetAmountRootEstimates (pricing env) x t \<noteq> Inl InvalidRoyalty)
            \<and> (\<forall>x b t. buyWithBaseAmount (pricing env) x b t \<noteq> Inl InvalidRoyalty)
            \<and> (\<forall>x b. buyWithBaseRootEstimates (pricing env) x b \<noteq> Inl InvalidRoyalty) \<longrightarrow>
              buyInstructions env a \<noteq> Inl InvalidRoyalty)"
proof (intro conjI impI allI)
  show "js_div (Finite 1) (js_sub (Finite 1) (asDecimal (- 1))) = Infinity False"
    by (rule reciprocal_full_royalty)
next
  assume "toNumber (amountAsNum env) amt (targetMint env) \<noteq> NaN
          \<and> toNumber (amountAsNum env) amt (targetMint env) \<noteq> Finite 0"
  then show "\<exists>s. neededAmount (toNumber (amountAsNum env) amt (targetMint env)) (- 1)
                   = Infinity s"
    by (simp add: neededAmount_full_nonzero)
next
  assume "toNumber (amountAsNum env) amt (targetMint env) \<noteq> NaN
          \<and> toNumber (amountAsNum env) amt (targetMint env) \<noteq> Finite 0"
  then show "buyInstructions env a =
               bind_err (buyTargetAmount (pricing env)
                           (toNumber (amountAsNum env) amt (targetMint env))
                           (buyBaseRoyaltyPercentage (tokenBondingAcct env)) (- 1)) (\<lambda>_.
               bind_err (buyTargetAmountRootEstimates (pricing env)
                           (toNumber (amountAsNum env) amt (targetMint env)) (- 1)) (\<lambda>_.
               Inl (Error ''Assertion failed'')))"
    using buyInstructions_full_royalty [OF assms] by simp
next
  assume "toNumber (amountAsNum env) amt (targetMint env) = NaN
          \<or> toNumber (amountAsNum env) amt (targetMint env) = Finite 0"
  then show "neededAmount (toNumber (amountAsNum env) amt (targetMint env)) (- 1) = NaN"
    by (rule neededAmount_full_zero)
next
  fix args
  assume "toNumber (amountAsNum env) amt (targetMint env) = NaN
          \<or> toNumber (amountAsNum env) amt (targetMint env) = Finite 0"
     and "buyInstructions env a = Inr args"
  then show "\<exists>bt. arg_buyTargetAmount args = Some bt \<and> targetAmount bt = 0"
    by (rule buyInstructions_full_royalty_zero [OF assms])
next
  assume h: "(\<forall>x b t. buyTargetAmount (pricing env) x b t \<noteq> Inl InvalidRoyalty)
            \<and> (\<forall>x t. buyTargetAmountRootEstimates (pricing env) x t \<noteq> Inl InvalidRoyalty)
            \<and> (\<forall>x b t. buyWithBaseAmount (pricing env) x b t \<noteq> Inl InvalidRoyalty)
            \<and> (\<forall>x b. buyWithBaseRootEstimates (pricing env) x b \<noteq> Inl InvalidRoyalty)"
  show "buyInstructions env a \<noteq> Inl InvalidRoyalty"
  proof
    assume "buyInstructions env a = Inl InvalidRoyalty"
    from buyInstructions_error [OF this] h show False by auto
  qed
qed

theorem buy_full_royalty_unguarded_witness:
  "buyInstructions (example_chain (- 1))
     \<lparr>sourceGiven = True, desiredTargetAmount = Some (Num (Finite 4)), baseAmount = None,
      slippage = Finite (1 / 20)\<rparr>
   = Inl (Error ''Assertion failed'')
   \<and> buyInstructions (example_chain (- 1))
       \<lparr>sourceGiven = True, desiredTargetAmount = Some (BN 0), baseAmount = None,
        slippage = Finite (1 / 20)\<rparr>
     = Inr \<lparr>arg_buyTargetAmount = Some \<lparr>targetAmount = 0, maximumPrice = 0\<rparr>,
            arg_buyWithBase = None, rootEstimates = Some [1500000000000]\<rparr>
   \<and> neededAmount (Finite 0) (- 1) = NaN
   \<and> buyInstructions (example_chain (- 1))
       \<lparr>sourceGiven = True, desiredTargetAmount = Some (Num (Finite 4)), baseAmount = None,
        slippage = Finite (1 / 20)\<rparr>
     \<noteq> Inl InvalidRoyalty"
proof -
  let ?a = "\<lparr>sourceGiven = True, desiredTargetAmount = Some (Num (Finite 4)),
             baseAmount = None, slippage = Finite (1 / 20)\<rparr>"
  let ?z = "\<lparr>sourceGiven = True, desiredTargetAmount = Some (BN 0),
             baseAmount = None, slippage = Finite (1 / 20)\<rparr>"
  let ?r = "\<lparr>arg_buyTargetAmount = Some \<lparr>targetAmount = 0, maximumPrice = 0\<rparr>,
             arg_buyWithBase = None, rootEstimates = Some [1500000000000]\<rparr>"
  have z: "buyInstructions (example_chain (- 1)) ?z = Inr ?r"
    by (simp add: buyInstructions_def buy_desired_block_def buy_base_block_def
        buy_source_block_def map_toU128_def toNumber_def toBN_def neededAmount_def
        asDecimal_full js_sub_def Math_pow10_def example_defs toU128_def render_defs)
  have four: "buyInstructions (example_chain (- 1)) ?a = Inl (Error ''Assertion failed'')
              \<and> buyInstructions (example_chain (- 1)) ?a \<noteq> Inl InvalidRoyalty"
    using buy_full_royalty_unguarded [of "example_chain (- 1)" ?a "Num (Finite 4)"]
    by (simp add: example_defs toNumber_def)
  have zero: "neededAmount (Finite 0) (- 1) = NaN"
    using buy_full_royalty_unguarded [of "example_chain (- 1)" ?z "BN 0"] z
    by (simp add: example_defs toNumber_def)
  from z four zero show ?thesis by simp
qed

text \<open>
  The claim C4 as stated fails: a buy of 4 target tokens at a royalty of 100% performs the
  division and ends with \<^verbatim>\<open>Assertion failed\<close>, not with \<open>InvalidRoyalty\<close>.
\<close>

theorem buy_full_royalty_counterexample:
  "buyInstructions (example_chain (- 1))
     \<lparr>sourceGiven = True, desiredTargetAmount = Some (Num (Finite 4)), baseAmount = None,
      slippage = Finite (1 / 20)\<rparr>
   = Inl (Error ''Assertion failed'')
   \<and> Inl (Error ''Assertion failed'') \<noteq> (Inl InvalidRoyalty :: error + BuyV0Args)
   \<and> neededAmount (Finite 4) (- 1) = Infinity False"
proof -
  have "buyInstructions (example_chain (- 1))
          \<lparr>sourceGiven = True, desiredTargetAmount = Some (Num (Finite 4)), baseAmount = None,
           slippage = Finite (1 / 20)\<rparr>
        = Inl (Error ''Assertion failed'')"
    using buyInstructions_full_royalty
          [of "example_chain (- 1)"
              "\<lparr>sourceGiven = True, desiredTargetAmount = Some (Num (Finite 4)),
                baseAmount = None, slippage = Finite (1 / 20)\<rparr>" "Num (Finite 4)"]
    by (simp add: example_defs toNumber_def)
  moreover have "neededAmount (Finite 4) (- 1) = Infinity False"
    by (simp add: neededAmount_def asDecimal_full js_sub_def)
  ultimately show ?thesis by simp
qed

subsection \<open>Root estimates\<close>

text \<open>
  Every buy instruction that is built carries the whole sequence of root estimates of the
  curve, in order, each one passed through \<^verbatim>\<open>toU128\<close>: that of
  \<^verbatim>\<open>buyWithBaseRootEstimates\<close> when a base amount drives the buy, that of
  \<^verbatim>\<open>buyTargetAmountRootEstimates\<close> when only a desired target amount does.
\<close>

lemma buyInstructions_rootEstimates:
  assumes "buyInstructions env a = Inr args"
  shows "(baseAmount a = Some amt \<and> truthy (Some amt) \<longrightarrow>
            (\<exists>ests ys.
               buyWithBaseRootEstimates (pricing env)
                 (toNumber (amountAsNum env) amt (baseMint env))
                 (buyBaseRoyaltyPercentage (tokenBondingAcct env)) = Inr ests
               \<and> rootEstimates args = Some ys
               \<and> map (\<lambda>x. toU128 (Num x)) ests = map Inr ys))
         \<and> (desiredTargetAmount a = Some amt' \<and> truthy (Some amt') \<and> \<not> truthy (baseAmount a) \<longrightarrow>
            (\<exists>ests ys.
               buyTargetAmountRootEstimates (pricing env)
                 (toNumber (amountAsNum env) amt' (targetMint env))
                 (buyTargetRoyaltyPercentage (tokenBondingAcct env)) = Inr ests
               \<and> rootEstimates args = Some ys
               \<and> map (\<lambda>x. toU128 (Num x)) ests = map Inr ys))"
proof -
  from buyInstructions_Inr [OF assms] obtain bta e0 m0 bwb es m
    where d: "buy_desired_block env a = Inr (bta, e0, m0)"
      and b: "buy_base_block env a e0 m0 = Inr (bwb, es, m)"
      and r: "map_toU128 es = Inr (rootEstimates args)"
    by blast
  show ?thesis
  proof (intro conjI impI)
    assume h: "baseAmount a = Some amt \<and> truthy (Some amt)"
    from buy_base_block_Inr [OF b conjunct1 [OF h] conjunct2 [OF h]]
    obtain ests where e: "buyWithBaseRootEstimates (pricing env)
                 (toNumber (amountAsNum env) amt (baseMint env))
                 (buyBaseRoyaltyPercentage (tokenBondingAcct env)) = Inr ests"
      and es: "es = Some ests"
      by blast
    from r es have "map_toU128 (Some ests) = Inr (rootEstimates args)" by simp
    from map_toU128_Some [OF this] obtain ys
      where "rootEstimates args = Some ys" "map (\<lambda>x. toU128 (Num x)) ests = map Inr ys"
      by blast
    with e show "\<exists>ests ys.
               buyWithBaseRootEstimates (pricing env)
                 (toNumber (amountAsNum env) amt (baseMint env))
                 (buyBaseRoyaltyPercentage (tokenBondingAcct env)) = Inr ests
               \<and> rootEstimates args = Some ys
               \<and> map (\<lambda>x. toU128 (Num x)) ests = map Inr ys"
      by blast
  next
    assume h: "desiredTargetAmount a = Some amt' \<and> truthy (Some amt') \<and> \<not> truthy (baseAmount a)"
    then have h1: "desiredTargetAmount a = Some amt'" and h2: "truthy (Some amt')"
      and h3: "\<not> truthy (baseAmount a)"
      by simp_all
    from buy_desired_block_Inr [OF d h1 h2]
    obtain ests where e: "buyTargetAmountRootEstimates (pricing env)
                 (toNumber (amountAsNum env) amt' (targetMint env))
                 (buyTargetRoyaltyPercentage (tokenBondingAcct env)) = Inr ests"
      and e0: "e0 = Some ests"
      by blast
    from b buy_base_block_skip [OF h3, of env e0 m0] have "es = e0" by simp
    with r e0 have "map_toU128 (Some ests) = Inr (rootEstimates args)" by simp
    from map_toU128_Some [OF this] obtain ys
      where "rootEstimates args = Some ys" "map (\<lambda>x. toU128 (Num x)) ests = map Inr ys"
      by blast
    with e show "\<exists>ests ys.
               buyTargetAmountRootEstimates (pricing env)
                 (toNumber (amountAsNum env) amt' (targetMint env))
                 (buyTargetRoyaltyPercentage (tokenBondingAcct env)) = Inr ests
               \<and> rootEstimates args = Some ys
               \<and> map (\<lambda>x. toU128 (Num x)) ests = map Inr ys"
      by blast
  qed
qed

lemma buyInstructions_rootEstimates_example:
  "buyInstructions (example_chain 0)
     \<lparr>sourceGiven = True, desiredTargetAmount = None, baseAmount = Some (Num (Finite 3)),
      slippage = Finite (1 / 20)\<rparr>
   = Inr \<lparr>arg_buyTargetAmount = None,
          arg_buyWithBase = Some \<lparr>bwb_baseAmount = 3000000, minimumTargetAmount = 2850000000\<rparr>,
          rootEstimates = Some [2000000000000, 2500000000000]\<rparr>"
  by (simp add: buy_defs example_defs toU128_def render_defs)

text \<open>
  Claim C5. The claim has every element of the carried sequence be the 12-decimal
  fixed-point encoding of the estimate. The whole sequence is carried, in order, but the
  elements are what \<^verbatim>\<open>toU128\<close> makes of them: a curve whose only root estimate is
  \<^verbatim>\<open>1.2345678901234e-7\<close>, whose encoding is 123456, gives an instruction that carries
  1234567890123, the digits of the mantissa. \<^verbatim>\<open>toU128\<close> misses the numbers that
  JavaScript prints with an exponent, as for claim C2.
\<close>

theorem buy_root_estimates_exponent_rendering:
  "buyTargetAmountRootEstimates (pricing small_estimate_chain) (Finite 4) 0
     = Inr [Finite small_number]
   \<and> toString (Finite small_number) = ''1.2345678901234e-7''
   \<and> map fixed12 [small_number] = [123456]
   \<and> buyInstructions small_estimate_chain
       \<lparr>sourceGiven = True, desiredTargetAmount = Some (Num (Finite 4)), baseAmount = None,
        slippage = Finite (1 / 20)\<rparr>
     = Inr \<lparr>arg_buyTargetAmount = Some \<lparr>targetAmount = 4000000000, maximumPrice = 4200000\<rparr>,
            arg_buyWithBase = None, rootEstimates = Some [1234567890123]\<rparr>"
proof -
  have "buyInstructions small_estimate_chain
          \<lparr>sourceGiven = True, desiredTargetAmount = Some (Num (Finite 4)), baseAmount = None,
           slippage = Finite (1 / 20)\<rparr>
        = Inr \<lparr>arg_buyTargetAmount = Some \<lparr>targetAmount = 4000000000, maximumPrice = 4200000\<rparr>,
               arg_buyWithBase = None, rootEstimates = Some [1234567890123]\<rparr>"
    by (simp add: buyInstructions_def buy_desired_block_def buy_base_block_def
        buy_source_block_def map_toU128_def toNumber_def toBN_def neededAmount_def
        asDecimal_def js_sub_def Math_pow10_def small_estimate_chain_def example_defs
        toU128_small_number)
  moreover have "buyTargetAmountRootEstimates (pricing small_estimate_chain) (Finite 4) 0
                 = Inr [Finite small_number]"
    by (simp add: small_estimate_chain_def example_defs)
  ultimately show ?thesis
    using small_number_value fixed12_small_number by simp
qed

section \<open>Selling\<close>

lemma sellInstructions_minimumPrice:
  assumes "sellInstructions env a = Inr args"
  shows "\<exists>reclaimedAmount.
           sellTargetAmount (pricing env)
             (toNumber (amountAsNum env) (sell_targetAmount a) (targetMint env))
             (sellBaseRoyaltyPercentage (tokenBondingAcct env))
             (sellTargetRoyaltyPercentage (tokenBondingAcct env)) = Inr reclaimedAmount
           \<and> BN_of_number (Math_ceil
                 (js_mul (js_mul reclaimedAmount (js_sub (Finite 1) (sell_slippage a)))
                    (Math_pow10 (decimals (baseMint env))))) = Inr (minimumPrice args)"
  using assms
  by (auto simp: sellInstructions_def Let_def bind_err_Inr_iff split: if_splits)

text \<open>
  Claim C6. For every sale the minimum price is the proceeds, which are in base tokens,
  times \<open>1 - slippage\<close>, scaled by ten to the decimals of the base mint.
  \<^verbatim>\<open>sellInstructions\<close> does so (lemma \<open>sellInstructions_minimumPrice\<close>), but
  \<^verbatim>\<open>sellV0Instructions\<close> scales by the decimals of the target mint: with 9 target and 6
  base decimals, a sale of 2 tokens for 2 base tokens at 5% slippage has the minimum price
  1900000000, a thousand times the 1900000 raw base units that the claim gives.
\<close>

theorem sellV0Instructions_target_decimals:
  "sellV0Instructions example_chain_v0
     \<lparr>v0_sourceGiven = True, v0_destinationGiven = True, v0_targetAmount = 2000000000,
      v0_slippage = Finite (1 / 20)\<rparr>
   = Inr \<lparr>wire_targetAmount = 2000000000, wire_minimumPrice = 1900000000\<rparr>
   \<and> BN_of_number (Math_ceil
        (js_mul (js_mul (Finite 2) (js_sub (Finite 1) (Finite (1 / 20))))
           (Math_pow10 (decimals (v0_baseMint example_chain_v0))))) = Inr 1900000"
  by (simp add: sellV0Instructions_def example_chain_v0_def js_sub_def Math_pow10_def)

section \<open>Royalty percentages\<close>

lemma string_of_nat_lt10: "n < 10 \<Longrightarrow> string_of_nat n = [digit_char n]"
  by (subst string_of_nat.simps) simp

lemma string_of_nat_ge10:
  "10 \<le> n \<Longrightarrow> string_of_nat n = string_of_nat (n div 10) @ [digit_char (n mod 10)]"
  by (subst string_of_nat.simps) simp

lemma string_of_nat_nonempty: "string_of_nat n \<noteq> []"
  by (subst string_of_nat.simps) simp

lemma digit_char_0: "digit_char 0 = CHR ''0''"
  by (simp add: digit_char_def)

lemma fixed_digits_two: "fixed_digits 2 q = two_decimals q"
proof -
  have m0: "(if q = 0 then ''0'' else string_of_nat q) = string_of_nat q"
    by (simp add: string_of_nat_lt10 digit_char_0)
  consider (one) "q < 10" | (two) "10 \<le> q" "q < 100" | (more) "100 \<le> q" by linarith
  then show ?thesis
  proof cases
    case one
    then show ?thesis
      by (simp add: fixed_digits_def m0 two_decimals_def string_of_nat_lt10 digit_char_0
          replicate_numeral_unfold)
  next
    case two
    then have "q div 10 < 10" by simp
    with two show ?thesis
      by (simp add: fixed_digits_def m0 two_decimals_def string_of_nat_ge10 string_of_nat_lt10
          digit_char_0 replicate_numeral_unfold)
  next
    case more
    then have a: "10 \<le> q" and b: "10 \<le> q div 10" by simp_all
    have c: "q div 10 div 10 = q div 100" by (simp add: div_mult2_eq [symmetric])
    have s: "string_of_nat q
             = string_of_nat (q div 100) @ [digit_char (q div 10 mod 10), digit_char (q mod 10)]"
      by (simp add: string_of_nat_ge10 [OF a] string_of_nat_ge10 [OF b] c)
    have l: "0 < length (string_of_nat (q div 100))"
      using string_of_nat_nonempty [of "q div 100"] by simp
    show ?thesis
      using l by (simp add: fixed_digits_def m0 s two_decimals_def Let_def)
  qed
qed

lemma toFixed_two:
  assumes "0 \<le> x" and "x < 10 ^ 21"
  shows "toFixed 2 x = Some (two_decimals (nat \<lfloor>x * 10 ^ 2 + 1 / 2\<rfloor>))"
proof -
  from assms have "\<not> 10 ^ 21 \<le> \<bar>x\<bar>" "\<not> x < 0" "\<bar>x\<bar> = x" by simp_all
  then show ?thesis
    by (simp add: toFixed_def fixed_digits_two)
qed

lemma percentage_range:
  "0 \<le> (of_nat (unat (w :: u32)) / 4294967295) * (100 :: rat)"
  "(of_nat (unat (w :: u32)) / 4294967295) * (100 :: rat) < 10 ^ 21"
proof -
  have "(0 :: rat) \<le> of_nat (unat w)" by (rule of_nat_0_le_iff)
  then show "0 \<le> (of_nat (unat (w :: u32)) / 4294967295) * (100 :: rat)" by simp
  have "unat w < 2 ^ 32" using unsigned_less [of w, where 'a = nat] by simp
  then have "(of_nat (unat w) :: rat) < of_nat (2 ^ 32)" by (simp only: of_nat_less_iff)
  then have "(of_nat (unat w) :: rat) < 4294967296" by simp
  then show "(of_nat (unat (w :: u32)) / 4294967295) * (100 :: rat) < 10 ^ 21" by simp
qed

text \<open>
  Claim C8. For every non-zero \<^verbatim>\<open>u32\<close> royalty numerator the readable percentage is the
  numerator divided by 4294967295, times 100, with two fractional digits: the string
  \<^verbatim>\<open>I.dd\<close> of the hundredths nearest to that value. For a zero or missing numerator the
  result is the number 0.
\<close>

theorem humanReadablePercentage_two_decimals:
  "humanReadablePercentage None = Some (IsNumber (Finite 0))
   \<and> humanReadablePercentage (Some 0) = Some (IsNumber (Finite 0))
   \<and> (w \<noteq> 0 \<longrightarrow>
        humanReadablePercentage (Some w)
        = Some (IsString (two_decimals
                  (nat \<lfloor>(rat_of_nat (unat w) / 4294967295) * 100 * 10 ^ 2 + 1 / 2\<rfloor>))))"
proof -
  have "toFixed 2 ((rat_of_nat (unat w) / 4294967295) * 100)
        = Some (two_decimals (nat \<lfloor>(rat_of_nat (unat w) / 4294967295) * 100 * 10 ^ 2 + 1 / 2\<rfloor>))"
    by (rule toFixed_two [OF percentage_range])
  then show ?thesis
    by (simp add: humanReadablePercentage_def)
qed

theorem humanReadablePercentage_two_decimals_witness:
  "(858993459 :: u32) \<noteq> 0
   \<and> humanReadablePercentage (Some 858993459) = Some (IsString ''20.00'')"
proof -
  have n: "(858993459 :: u32) \<noteq> 0" by simp
  have "(rat_of_nat (unat (858993459 :: u32)) / 4294967295) * 100 * 10 ^ 2 + 1 / 2 = 4001 / 2"
    by simp
  moreover have "\<lfloor>(4001 :: rat) / 2\<rfloor> = 2000" by (rule floor_unique) simp_all
  ultimately have q: "nat \<lfloor>(rat_of_nat (unat (858993459 :: u32)) / 4294967295) * 100 * 10 ^ 2 + 1 / 2\<rfloor> = 2000"
    by (simp only: nat_numeral)
  have t: "two_decimals 2000 = ''20.00''"
    by (simp add: two_decimals_def string_of_nat.simps digit_char_def)
  from humanReadablePercentage_two_decimals [of 858993459] n
  have "humanReadablePercentage (Some 858993459)
        = Some (IsString (two_decimals
                  (nat \<lfloor>(rat_of_nat (unat (858993459 :: u32)) / 4294967295) * 100 * 10 ^ 2 + 1 / 2\<rfloor>)))"
    by blast
  with n show ?thesis by (simp only: q t) simp
qed

section \<open>\<^verbatim>\<open>toU128\<close> on numbers rendered without an exponent\<close>

text \<open>
  Where \<^verbatim>\<open>toString\<close> renders a non-negative number in plain notation, that is for zero
  and for the magnitudes from \<open>10 ^ - 6\<close> up to, but excluding, \<open>10 ^ 21\<close>, \<^verbatim>\<open>toU128\<close>
  is the truncating fixed-point encoding (\<open>toU128_plain_rendering\<close> below): the failure of
  \<open>toU128_exponent_rendering\<close> is confined to the exponent notation.
\<close>

lemma digits_value_Nil [simp]: "digits_value [] = 0"
  by (simp add: digits_value_def)

lemma foldl_digits_acc:
  "foldl (\<lambda>a d. 10 * a + d) acc ds = acc * 10 ^ length ds + foldl (\<lambda>a d. 10 * a + d) (0::nat) ds"
proof (induction ds arbitrary: acc)
  case Nil
  then show ?case by simp
next
  case (Cons d ds)
  have "foldl (\<lambda>a d. 10 * a + d) acc (d # ds) = foldl (\<lambda>a d. 10 * a + d) (10 * acc + d) ds"
    by simp
  also have "\<dots> = (10 * acc + d) * 10 ^ length ds + foldl (\<lambda>a d. 10 * a + d) 0 ds"
    by (rule Cons.IH)
  also have "foldl (\<lambda>a d. 10 * a + d) 0 (d # ds) = d * 10 ^ length ds + foldl (\<lambda>a d. 10 * a + d) 0 ds"
    using Cons.IH [of d] by simp
  ultimately show ?case by (simp add: algebra_simps)
qed

lemma digits_value_append:
  "digits_value (xs @ ys) = digits_value xs * 10 ^ length ys + digits_value ys"
  using foldl_digits_acc [of "digits_value xs" ys] by (simp add: digits_value_def)

lemma digits_value_Cons: "digits_value (d # ds) = d * 10 ^ length ds + digits_value ds"
  using digits_value_append [of "[d]" ds] by (simp add: digits_value_def)

lemma digits_value_zeros [simp]: "digits_value (replicate m 0) = 0"
  by (induction m) (simp_all add: digits_value_Cons)

lemma digits_value_bound:
  "list_all (\<lambda>d. d < 10) ds \<Longrightarrow> digits_value ds < 10 ^ length ds"
proof (induction ds)
  case Nil
  then show ?case by simp
next
  case (Cons d ds)
  then have d: "d \<le> 9" and b: "digits_value ds < 10 ^ length ds" by simp_all
  from d have "d * 10 ^ length ds \<le> 9 * 10 ^ length ds" by (rule mult_le_mono1)
  with b have "d * 10 ^ length ds + digits_value ds < 10 * 10 ^ length ds" by linarith
  then show ?case by (simp add: digits_value_Cons)
qed

lemma digit_cases:
  assumes "d < (10::nat)"
  shows "d = 0 \<or> d = 1 \<or> d = 2 \<or> d = 3 \<or> d = 4 \<or> d = 5 \<or> d = 6 \<or> d = 7 \<or> d = 8 \<or> d = 9"
  using assms by presburger

lemma digit_char_props:
  assumes "d < 10"
  shows "is_digit (digit_char d)" and "digit_val (digit_char d) = int d"
    and "\<not> is_space (digit_char d)" and "digit_char d \<noteq> CHR ''.''"
    and "digit_char d \<noteq> CHR ''-''" and "digit_char d \<noteq> CHR ''+''"
    and "digit_char d \<noteq> CHR ''I''"
  using digit_cases [OF assms]
  by (auto simp: digit_char_def is_digit_def digit_val_def is_space_def)


lemma foldl_digit_chars:
  assumes "list_all (\<lambda>d. d < 10) ds"
  shows "foldl (\<lambda>a c. 10 * a + digit_val c) (int acc) (map digit_char ds)
         = int (foldl (\<lambda>a d. 10 * a + d) acc ds)"
  using assms
proof (induction ds arbitrary: acc)
  case Nil
  then show ?case by simp
next
  case (Cons d ds)
  then have d: "d < 10" and ds: "list_all (\<lambda>d. d < 10) ds" by simp_all
  have "10 * int acc + digit_val (digit_char d) = int (10 * acc + d)"
    by (simp add: digit_char_props(2) [OF d])
  with Cons.IH [OF ds, of "10 * acc + d"] show ?case by simp
qed

lemma int_of_string_digits:
  assumes "list_all (\<lambda>d. d < 10) ds"
  shows "int_of_string (map digit_char ds) = int (digits_value ds)"
  using foldl_digit_chars [OF assms, of 0] by (simp add: int_of_string_def digits_value_def)

lemma digit_chars_set:
  assumes "list_all (\<lambda>d. d < 10) ds" and "c \<in> set (map digit_char ds)"
  shows "is_digit c" and "\<not> is_space c" and "c \<noteq> CHR ''.''"
proof -
  from assms obtain d where "d < 10" and "c = digit_char d"
    by (auto simp: list_all_iff)
  then show "is_digit c" and "\<not> is_space c" and "c \<noteq> CHR ''.''"
    by (simp_all add: digit_char_props)
qed

lemma digit_chars_all:
  assumes "list_all (\<lambda>d. d < 10) ds"
  shows "list_all is_digit (map digit_char ds)"
    and "CHR ''.'' \<notin> set (map digit_char ds)"
    and "filter (\<lambda>c. \<not> is_space c) (map digit_char ds) = map digit_char ds"
    and "takeWhile is_digit (map digit_char ds) = map digit_char ds"
    and "dropWhile is_digit (map digit_char ds) = []"
proof -
  show "list_all is_digit (map digit_char ds)"
    unfolding list_all_iff using digit_chars_set(1) [OF assms] by blast
  show "CHR ''.'' \<notin> set (map digit_char ds)"
    using digit_chars_set(3) [OF assms] by blast
  show "filter (\<lambda>c. \<not> is_space c) (map digit_char ds) = map digit_char ds"
    by (rule filter_True) (use digit_chars_set(2) [OF assms] in blast)
  show "takeWhile is_digit (map digit_char ds) = map digit_char ds"
    unfolding takeWhile_eq_all_conv using digit_chars_set(1) [OF assms] by blast
  show "dropWhile is_digit (map digit_char ds) = []"
    unfolding dropWhile_eq_Nil_conv using digit_chars_set(1) [OF assms] by blast
qed

lemma split_dot_nodot: "CHR ''.'' \<notin> set s \<Longrightarrow> split_dot s = [s]"
  by (induction s) auto

lemma split_dot_one:
  "CHR ''.'' \<notin> set a \<Longrightarrow> CHR ''.'' \<notin> set b \<Longrightarrow> split_dot (a @ CHR ''.'' # b) = [a, b]"
  by (induction a) (auto simp: split_dot_nodot)

lemma BN_of_string_digits:
  assumes "list_all (\<lambda>d. d < 10) ds" and "ds \<noteq> []"
  shows "BN_of_string (map digit_char ds) = Inr (int (digits_value ds))"
proof -
  from assms obtain d ds' where ds: "ds = d # ds'" and d: "d < 10"
    by (cases ds) auto
  have "BN_of_string (map digit_char ds)
        = (if list_all is_digit (map digit_char ds)
           then Inr (int_of_string (map digit_char ds)) else Inl (Error ''Invalid character''))"
    by (simp add: BN_of_string_def digit_chars_all(3) [OF assms(1)])
       (simp add: ds digit_char_props(5) [OF d])
  then show ?thesis
    by (simp add: digit_chars_all(1) [OF assms(1)] int_of_string_digits [OF assms(1)])
qed

lemma double_range_wide: "(10 :: rat) ^ 21 < 2 ^ 1024 - 2 ^ 970"
  by simp

lemma Number_digits:
  assumes "list_all (\<lambda>d. d < 10) ds" and "ds \<noteq> []" and "digits_value ds < 10 ^ 21"
  shows "Number (map digit_char ds) = Finite (rat_of_nat (digits_value ds))"
proof -
  from assms obtain d ds' where ds: "ds = d # ds'" and d: "d < 10"
    by (cases ds) auto
  let ?s = "map digit_char ds"
  have ps: "parse_sign ?s = (False, ?s)"
    by (simp add: parse_sign_def ds digit_char_props(5,6) [OF d])
  have ninf: "?s \<noteq> ''Infinity''"
    by (simp add: ds digit_char_props(7) [OF d])
  have "rat_of_nat (digits_value ds) < rat_of_nat (10 ^ 21)"
    using assms(3) by (simp only: of_nat_less_iff)
  then have small: "\<not> 2 ^ 1024 - 2 ^ 970 \<le> rat_of_nat (digits_value ds)"
    using double_range_wide by simp
  have ne: "?s \<noteq> []" using assms(2) by simp
  show ?thesis
    unfolding Number_def
    using ne ninf small
    by (simp add: ps digit_chars_all(4,5) [OF assms(1)] parse_exponent_def scale10_def
        to_double_range_def int_of_string_digits [OF assms(1)])
qed


lemma fixed_point_digits:
  assumes "list_all (\<lambda>d. d < 10) F"
  shows "int (digits_value (I @ take p F @ replicate (p - length (take p F)) 0))
         = \<lfloor>(rat_of_nat (digits_value I) + rat_of_nat (digits_value F) / 10 ^ length F) * 10 ^ p\<rfloor>"
proof -
  let ?T = "take p F"
  have len: "length ?T + (p - length ?T) = p" by simp
  have lhs: "digits_value (I @ ?T @ replicate (p - length ?T) 0)
             = digits_value I * 10 ^ p + digits_value ?T * 10 ^ (p - length ?T)"
    using len by (simp add: digits_value_append power_add [symmetric] del: length_take)
  show ?thesis
  proof (cases "length F \<le> p")
    case True
    then have T: "?T = F" by simp
    have e: "(10 :: rat) ^ p = 10 ^ length F * 10 ^ (p - length F)"
      using True by (simp add: power_add [symmetric])
    have "rat_of_nat (digits_value F) / 10 ^ length F * 10 ^ p
          = rat_of_nat (digits_value F) * 10 ^ (p - length F)"
      by (simp add: e)
    then have x: "(rat_of_nat (digits_value I) + rat_of_nat (digits_value F) / 10 ^ length F) * 10 ^ p
               = rat_of_nat (digits_value I * 10 ^ p + digits_value F * 10 ^ (p - length F))"
      by (simp add: distrib_right)
    from lhs have lhs': "digits_value (I @ F @ replicate (p - length F) 0)
                         = digits_value I * 10 ^ p + digits_value F * 10 ^ (p - length F)"
      unfolding T .
    show ?thesis
      unfolding T lhs' x floor_of_nat by (rule refl)
  next
    case False
    then have lp: "p < length F" by simp
    let ?D = "drop p F"
    let ?P = "(10 :: rat) ^ (length F - p)"
    have lT: "length ?T = p" using lp by simp
    have F: "digits_value F = digits_value ?T * 10 ^ (length F - p) + digits_value ?D"
      using digits_value_append [of ?T ?D] by simp
    have "list_all (\<lambda>d. d < 10) ?D"
      using assms by (auto simp: list_all_iff dest: in_set_dropD)
    from digits_value_bound [OF this] have D: "digits_value ?D < 10 ^ (length F - p)" by simp
    have e: "(10 :: rat) ^ length F = 10 ^ p * ?P"
      using lp by (simp add: power_add [symmetric])
    have "rat_of_nat (digits_value F) / 10 ^ length F * 10 ^ p = rat_of_nat (digits_value F) / ?P"
      by (simp add: e)
    also have "\<dots> = rat_of_nat (digits_value ?T) + rat_of_nat (digits_value ?D) / ?P"
      by (simp add: F add_divide_distrib)
    finally have x: "(rat_of_nat (digits_value I) + rat_of_nat (digits_value F) / 10 ^ length F) * 10 ^ p
                     = rat_of_nat (digits_value I * 10 ^ p + digits_value ?T)
                       + rat_of_nat (digits_value ?D) / ?P"
      by (simp add: distrib_right)
    have "rat_of_nat (digits_value ?D) < rat_of_nat (10 ^ (length F - p))"
      using D by (simp only: of_nat_less_iff)
    then have lt: "rat_of_nat (digits_value ?D) / ?P < 1" by simp
    have ge: "0 \<le> rat_of_nat (digits_value ?D) / ?P" by simp
    have fl: "\<lfloor>rat_of_nat (digits_value I * 10 ^ p + digits_value ?T)
            + rat_of_nat (digits_value ?D) / ?P\<rfloor>
          = int (digits_value I * 10 ^ p + digits_value ?T)"
      by (rule floor_unique) (use lt ge in simp_all)
    have lhs': "digits_value (I @ ?T @ replicate (p - length ?T) 0)
                = digits_value I * 10 ^ p + digits_value ?T"
      using lhs by (simp add: lT del: length_take)
    show ?thesis
      unfolding lhs' x fl by (rule refl)
  qed
qed


lemma toU128_of_rendering:
  assumes r: "toString x = map digit_char I @ (if F = [] then [] else CHR ''.'' # map digit_char F)"
      and I: "list_all (\<lambda>d. d < 10) I" "I \<noteq> []" "digits_value I < 10 ^ 21"
      and F: "list_all (\<lambda>d. d < 10) F"
  shows "toU128 (Num x)
         = Inr (int (digits_value (I @ take 12 F @ replicate (12 - length (take 12 F)) 0)))"
proof -
  let ?sI = "map digit_char I" and ?sF = "map digit_char F"
  let ?all = "I @ take 12 F @ replicate (12 - length (take 12 F)) 0"
  have parts: "first_elem (split_dot (toString x)) = Some ?sI
               \<and> or_empty (second_elem (split_dot (toString x))) = ?sF"
  proof (cases "F = []")
    case True
    then show ?thesis
      by (simp add: r split_dot_nodot [OF digit_chars_all(2) [OF I(1)]] first_elem_def
          second_elem_def or_empty_def)
  next
    case False
    then show ?thesis
      by (simp add: r split_dot_one [OF digit_chars_all(2) [OF I(1)] digit_chars_all(2) [OF F]]
          first_elem_def second_elem_def or_empty_def)
  qed
  have num: "Number_of (Some ?sI) = Finite (rat_of_nat (digits_value I))"
    by (simp add: Number_of_def Number_digits [OF I])
  have str: "?sI @ padEnd 12 CHR ''0'' (slice0 12 ?sF) = map digit_char ?all"
    by (simp add: padEnd_def slice0_def take_map digit_char_0 del: length_take)
  have "list_all (\<lambda>d. d < 10) (take 12 F)"
    using F by (auto simp: list_all_iff dest: in_set_takeD)
  with I(1) have all: "list_all (\<lambda>d. d < 10) ?all"
    by (auto simp: list_all_iff simp del: length_take)
  have ne: "?all \<noteq> []" using I(2) by simp
  have oe: "or_empty (Some ?sI) = ?sI" by (simp add: or_empty_def)
  have "toU128 (Num x) = BN_of_string (?sI @ padEnd 12 CHR ''0'' (slice0 12 ?sF))"
    by (simp add: toU128_def Let_def parts num oe)
  also have "\<dots> = Inr (int (digits_value ?all))"
    unfolding str by (rule BN_of_string_digits [OF all ne])
  finally show ?thesis .
qed


lemma plain_rendering_parts:
  assumes wf: "wf_decimal (Decimal False ds n)" and lo: "- 6 < n" and hi: "n \<le> 21"
  shows "\<exists>I F. toString (Finite (Decimal False ds n))
                 = map digit_char I @ (if F = [] then [] else CHR ''.'' # map digit_char F)
               \<and> list_all (\<lambda>d. d < 10) I \<and> I \<noteq> [] \<and> digits_value I < 10 ^ 21
               \<and> list_all (\<lambda>d. d < 10) F
               \<and> decimal_value (Decimal False ds n)
                 = rat_of_nat (digits_value I) + rat_of_nat (digits_value F) / 10 ^ length F"
proof -
  from wf have ne: "ds \<noteq> []" and dig: "list_all (\<lambda>d. d < 10) ds" by simp_all
  let ?k = "length ds"
  show ?thesis
  proof (cases "hd ds = 0")
    case True
    with wf have z: "ds = [0]" "n = 1" by simp_all
    have "toString (Finite (Decimal False ds n))
          = map digit_char [0] @ (if ([]::nat list) = [] then [] else CHR ''.'' # map digit_char [])"
      by (simp add: z digit_char_0)
    moreover have "decimal_value (Decimal False ds n)
          = rat_of_nat (digits_value [0]) + rat_of_nat (digits_value []) / 10 ^ length ([]::nat list)"
      by (simp add: z digits_value_def)
    moreover have "list_all (\<lambda>d. d < 10) [0::nat]" "[0::nat] \<noteq> []"
      "digits_value [0] < 10 ^ 21" "list_all (\<lambda>d. d < 10) ([]::nat list)"
      by (simp_all add: digits_value_def)
    ultimately show ?thesis by blast
  next
    case False
    with ne have nz: "\<not> list_all (\<lambda>d. d = 0) ds" by (cases ds) simp_all
    consider (whole) "int ?k \<le> n" | (point) "0 < n" "n < int ?k" | (small) "n \<le> 0"
      by linarith
    then show ?thesis
    proof cases
      case whole
      let ?I = "ds @ replicate (nat (n - int ?k)) 0"
      have len: "?k + nat (n - int ?k) = nat n" using whole by simp
      have "digits_value ?I = digits_value ds * 10 ^ nat (n - int ?k)"
        by (simp add: digits_value_append)
      moreover have "digits_value ds * 10 ^ nat (n - int ?k) < 10 ^ ?k * 10 ^ nat (n - int ?k)"
        using digits_value_bound [OF dig] by simp
      moreover have "(10::nat) ^ ?k * 10 ^ nat (n - int ?k) = 10 ^ nat n"
        by (simp add: power_add [symmetric] len)
      moreover have "(10::nat) ^ nat n \<le> 10 ^ 21"
        using hi by (intro power_increasing) simp_all
      ultimately have small: "digits_value ?I < 10 ^ 21" by linarith
      have v: "digits_value ?I = digits_value ds * 10 ^ nat (n - int ?k)"
        by (simp add: digits_value_append)
      have "toString (Finite (Decimal False ds n)) = map digit_char ?I"
        using whole hi nz by (simp add: Let_def digit_char_0)
      then have "toString (Finite (Decimal False ds n))
          = map digit_char ?I @ (if ([]::nat list) = [] then [] else CHR ''.'' # map digit_char [])"
        by simp
      moreover have "decimal_value (Decimal False ds n)
          = rat_of_nat (digits_value ?I) + rat_of_nat (digits_value []) / 10 ^ length ([]::nat list)"
        using whole by (simp add: v)
      moreover have "list_all (\<lambda>d. d < 10) ?I" using dig by (auto simp: list_all_iff)
      moreover have "?I \<noteq> []" using ne by simp
      moreover have "list_all (\<lambda>d. d < 10) ([]::nat list)" by simp
      ultimately show ?thesis using small by blast
    next
      case point
      let ?I = "take (nat n) ds" and ?F = "drop (nat n) ds"
      have lI: "length ?I = nat n" using point by simp
      have lF: "length ?F = ?k - nat n" by simp
      have Fne: "?F \<noteq> []" using point by simp
      have Ine: "?I \<noteq> []" using point ne by simp
      have dI: "list_all (\<lambda>d. d < 10) ?I" using dig by (auto simp: list_all_iff dest: in_set_takeD)
      have dF: "list_all (\<lambda>d. d < 10) ?F" using dig by (auto simp: list_all_iff dest: in_set_dropD)
      have "digits_value ?I < 10 ^ nat n" using digits_value_bound [OF dI] lI by simp
      moreover have "(10::nat) ^ nat n \<le> 10 ^ 21"
        using hi by (intro power_increasing) simp_all
      ultimately have small: "digits_value ?I < 10 ^ 21" by linarith
      have v: "digits_value ds = digits_value ?I * 10 ^ (?k - nat n) + digits_value ?F"
        using digits_value_append [of ?I ?F] by simp
      have kn: "nat (int ?k - n) = ?k - nat n" using point by simp
      have val: "decimal_value (Decimal False ds n)
                 = rat_of_nat (digits_value ?I) + rat_of_nat (digits_value ?F) / 10 ^ length ?F"
        using point by (simp add: v kn add_divide_distrib)
      have str: "toString (Finite (Decimal False ds n))
                 = map digit_char ?I @ CHR ''.'' # map digit_char ?F"
        using point hi nz by (simp add: Let_def take_map drop_map)
      from str Fne have "toString (Finite (Decimal False ds n))
          = map digit_char ?I @ (if ?F = [] then [] else CHR ''.'' # map digit_char ?F)"
        by simp
      with val dI Ine small dF show ?thesis by blast
    next
      case small
      let ?F = "replicate (nat (- n)) 0 @ ds"
      have lF: "length ?F = nat (- n) + ?k" by simp
      have Fne: "?F \<noteq> []" using ne by simp
      have dF: "list_all (\<lambda>d. d < 10) ?F" using dig by (auto simp: list_all_iff)
      have vF: "digits_value ?F = digits_value ds"
        by (simp add: digits_value_append)
      have kn: "nat (int ?k - n) = nat (- n) + ?k" using small by simp
      have nk: "\<not> int ?k \<le> n" using small ne by (cases ds) simp_all
      have z0: "digits_value [0] = 0" by (simp add: digits_value_def)
      have val: "decimal_value (Decimal False ds n)
                 = rat_of_nat (digits_value [0]) + rat_of_nat (digits_value ?F) / 10 ^ length ?F"
        using nk by (simp add: vF kn z0 del: replicate_append_same)
      have str: "toString (Finite (Decimal False ds n))
                 = map digit_char [0] @ CHR ''.'' # map digit_char ?F"
        using small lo nz nk by (simp add: Let_def digit_char_0)
      from str Fne have "toString (Finite (Decimal False ds n))
          = map digit_char [0] @ (if ?F = [] then [] else CHR ''.'' # map digit_char ?F)"
        by simp
      moreover have "list_all (\<lambda>d. d < 10) [0::nat]" "[0::nat] \<noteq> []"
        "digits_value [0] < 10 ^ 21"
        by (simp_all add: digits_value_def)
      ultimately show ?thesis using val dF by blast
    qed
  qed
qed

lemma toU128_plain_rendering:
  assumes "wf_decimal (Decimal False ds n)" and "- 6 < n" and "n \<le> 21"
  shows "toU128 (Num (Finite (Decimal False ds n))) = Inr (fixed12 (Decimal False ds n))"
proof -
  from plain_rendering_parts [OF assms] obtain I F
    where r: "toString (Finite (Decimal False ds n))
              = map digit_char I @ (if F = [] then [] else CHR ''.'' # map digit_char F)"
      and I: "list_all (\<lambda>d. d < 10) I" "I \<noteq> []" "digits_value I < 10 ^ 21"
      and F: "list_all (\<lambda>d. d < 10) F"
      and v: "decimal_value (Decimal False ds n)
              = rat_of_nat (digits_value I) + rat_of_nat (digits_value F) / 10 ^ length F"
    by blast
  show ?thesis
    unfolding toU128_of_rendering [OF r I F] fixed12_def v fixed_point_digits [OF F, of I 12]
    by (rule refl)
qed

section \<open>What is stored and sent for numbers rendered without an exponent\<close>

lemma toU128_plain:
  assumes "plain_rendering x"
  shows "toU128 (Num x) = Inr (fixed12_of x)"
proof (cases x)
  case (Finite d)
  obtain neg ds n where d: "d = Decimal neg ds n" by (cases d)
  from assms Finite d have "\<not> neg" "wf_decimal (Decimal False ds n)" "- 6 < n" "n \<le> 21"
    by simp_all
  with toU128_plain_rendering [of ds n] Finite d show ?thesis by simp
qed (use assms in simp_all)

lemma plain_estimates_encoding:
  assumes "map (\<lambda>x. toU128 (Num x)) ests = map Inr ys"
      and "\<forall>x \<in> set ests. plain_rendering x"
  shows "ys = map fixed12_of ests"
  using assms
proof (induction ests arbitrary: ys)
  case Nil
  then show ?case by simp
next
  case (Cons x xs)
  from Cons.prems(1) obtain y zs where ys: "ys = y # zs"
    and y: "toU128 (Num x) = Inr y" and zs: "map (\<lambda>x. toU128 (Num x)) xs = map Inr zs"
    by (cases ys) auto
  from Cons.prems(2) have px: "plain_rendering x" and pxs: "\<forall>x \<in> set xs. plain_rendering x"
    by simp_all
  from y toU128_plain [OF px] have "y = fixed12_of x" by simp
  with Cons.IH [OF zs pxs] ys show ?case by simp
qed

text \<open>
  For a buy by desired target amount whose root estimates are all rendered without an
  exponent, the instruction carries their 12-decimal encodings, in order.
\<close>

lemma buyInstructions_rootEstimates_plain:
  assumes "buyInstructions env a = Inr args"
      and "desiredTargetAmount a = Some amt" and "truthy (Some amt)"
      and "\<not> truthy (baseAmount a)"
      and "buyTargetAmountRootEstimates (pricing env)
             (toNumber (amountAsNum env) amt (targetMint env))
             (buyTargetRoyaltyPercentage (tokenBondingAcct env)) = Inr ests"
      and "\<forall>x \<in> set ests. plain_rendering x"
  shows "rootEstimates args = Some (map fixed12_of ests)"
proof -
  from conjunct2 [OF buyInstructions_rootEstimates [OF assms(1), of amt amt]] assms(2,3,4)
  obtain ests' ys
    where "buyTargetAmountRootEstimates (pricing env)
             (toNumber (amountAsNum env) amt (targetMint env))
             (buyTargetRoyaltyPercentage (tokenBondingAcct env)) = Inr ests'"
      and r: "rootEstimates args = Some ys"
      and m: "map (\<lambda>x. toU128 (Num x)) ests' = map Inr ys"
    by blast
  with assms(5) have "ests' = ests" by simp
  with m plain_estimates_encoding [OF _ assms(6), of ys] r show ?thesis by simp
qed

text \<open>
  For coefficients rendered without an exponent, the configuration stores their
  12-decimal encodings.
\<close>

lemma new_ExponentialCurveConfig_plain:
  assumes "plain_rendering c" and "plain_rendering b"
  shows "new_ExponentialCurveConfig (Some (Num c)) (Some (Num b)) p f
         = Inr \<lparr>cfg_c = fixed12_of c, cfg_b = fixed12_of b,
                cfg_pow = default_to (Finite 1) p, cfg_frac = default_to (Finite 1) f\<rparr>"
  by (simp add: new_ExponentialCurveConfig_def default_to_def toU128_plain [OF assms(1)]
      toU128_plain [OF assms(2)])

end
